theory Spec2Isabelle
  imports Complex_Main "HOL-Library.Log_Nat"
begin

section \<open>Vibrations profile command of Shake\&Tune\<close>

text \<open>
  Shallow embedding of \<^verbatim>\<open>create_vibrations_profile\<close>
  (\<^verbatim>\<open>shaketune/commands/create_vibrations_profile.py\<close>).

  Python floats are modelled as \<^typ>\<open>real\<close>, Python ints as \<^typ>\<open>int\<close>. The
  arithmetic that decides how many speed samples are run and at which speeds (lines 86
  and 106) is rounded to double precision, operation by operation, since rounding there
  changes the number of samples; the remaining arithmetic (coordinates, the segment
  length multiplier, the travel time check) is exact. Every call on a collaborator that has an effect on the machine
  (G-code scripts, toolhead moves, dwells, drains, accelerometer recordings, the
  post-processing pipeline) is recorded, in program order, in a list of events; every
  \<^verbatim>\<open>raise\<close> is an \<open>Inl\<close> result, returned together with the events issued before
  it. Console output is not recorded.
\<close>

subsection \<open>Errors, events, inputs\<close>

datatype error =
    ParamBelowMinimum string
  | ZeroDivisionError
  | MovementTooSmall
  | InputShaperNotConfigured
  | UnsupportedKinematics
  | KeyError string
  | AccelerometerNotFound "string option"

type_synonym coord = "real \<times> real \<times> real \<times> real"

text \<open>
  \<open>SetVelocityLimit a mcr sqv\<close> is the script
  \<^verbatim>\<open>SET_VELOCITY_LIMIT ACCEL=a [MINIMUM_CRUISE_RATIO=mcr] SQUARE_CORNER_VELOCITY=sqv\<close>;
  \<open>StartRecording chip angle speed\<close> carries the accelerometer and the two numbers the
  recording name is formatted from.
\<close>

datatype event =
    SetVelocityLimit real "real option" real
  | Move coord real
  | Dwell real
  | WaitMoves
  | StartRecording string int real
  | StopRecording string
  | Configure string int
  | Run
  | WaitForCompletion

text \<open>The parameters of the G-code command as the user gave them (absent = \<open>None\<close>).\<close>

record gcmd =
  SIZE :: "real option"
  Z_HEIGHT :: "real option"
  MAX_SPEED :: "real option"
  SPEED_INCREMENT :: "real option"
  ACCEL :: "int option"
  TRAVEL_SPEED :: "real option"
  ACCEL_CHIP :: "string option"

text \<open>The local variables of lines 23 to 29.\<close>

record params =
  size_param :: real
  z_height :: real
  max_speed :: real
  speed_increment :: real
  accel :: int
  feedrate_travel :: real
  accel_chip :: "string option"

text \<open>
  What the command reads from the printer: whether an \<^verbatim>\<open>input_shaper\<close> object is
  registered, the kinematics found by the motors configuration parser, the dictionary
  returned by \<^verbatim>\<open>toolhead.get_status\<close>, the axis limits of the kinematics status,
  the toolhead position, the accelerometer resolver
  \<^verbatim>\<open>Accelerometer.find_axis_accelerometer\<close> (a helper that is taken as a parameter)
  and the names of the registered printer objects.
\<close>

record printer =
  input_shaper :: bool
  kinematics :: string
  toolhead_info :: "string \<rightharpoonup> real"
  axis_minimum :: "real \<times> real"
  axis_maximum :: "real \<times> real"
  position :: coord
  find_axis_accelerometer :: "string \<Rightarrow> string option"
  objects :: "string list"

subsection \<open>Reading the parameters\<close>

fun bind_err :: "error + 'a \<Rightarrow> ('a \<Rightarrow> error + 'b) \<Rightarrow> error + 'b" where
  "bind_err (Inl e) f = Inl e"
| "bind_err (Inr x) f = f x"

text \<open>
  \<^verbatim>\<open>gcmd.get_float(name, default=d, minval=m)\<close> and \<^verbatim>\<open>gcmd.get_int\<close>: the
  default when the parameter is absent, an error when the value is below the minimum.
\<close>

definition get_float :: "string \<Rightarrow> real option \<Rightarrow> real \<Rightarrow> real option \<Rightarrow> error + real" where
  "get_float name given dflt minval =
     (let v = (case given of None \<Rightarrow> dflt | Some x \<Rightarrow> x)
      in case minval of
           None \<Rightarrow> Inr v
         | Some m \<Rightarrow> if v < m then Inl (ParamBelowMinimum name) else Inr v)"

definition get_int :: "string \<Rightarrow> int option \<Rightarrow> int \<Rightarrow> int option \<Rightarrow> error + int" where
  "get_int name given dflt minval =
     (let v = (case given of None \<Rightarrow> dflt | Some x \<Rightarrow> x)
      in case minval of
           None \<Rightarrow> Inr v
         | Some m \<Rightarrow> if v < m then Inl (ParamBelowMinimum name) else Inr v)"

definition read_params :: "gcmd \<Rightarrow> error + params" where
  "read_params g =
     bind_err (get_float ''SIZE'' (SIZE g) 100 (Some 50)) (\<lambda>sz.
     bind_err (get_float ''Z_HEIGHT'' (Z_HEIGHT g) 20 None) (\<lambda>zh.
     bind_err (get_float ''MAX_SPEED'' (MAX_SPEED g) 200 (Some 10)) (\<lambda>ms.
     bind_err (get_float ''SPEED_INCREMENT'' (SPEED_INCREMENT g) 2 (Some 1)) (\<lambda>si.
     bind_err (get_int ''ACCEL'' (ACCEL g) 3000 (Some 100)) (\<lambda>ac.
     bind_err (get_float ''TRAVEL_SPEED'' (TRAVEL_SPEED g) 120 (Some 20)) (\<lambda>ft.
     Inr \<lparr> size_param = sz, z_height = zh, max_speed = ms, speed_increment = si,
           accel = ac, feedrate_travel = ft,
           accel_chip = (if ACCEL_CHIP g = Some [] then None else ACCEL_CHIP g) \<rparr>))))))"

subsection \<open>Speed sweep planning\<close>

definition MIN_SPEED :: real where
  "MIN_SPEED = 2"

text \<open>Python's \<^verbatim>\<open>int(x)\<close> on a float: truncation towards zero.\<close>

definition py_int :: "real \<Rightarrow> int" where
  "py_int x = (if 0 \<le> x then \<lfloor>x\<rfloor> else \<lceil>x\<rceil>)"

text \<open>
  Double precision (IEEE 754 binary64, round to nearest, ties to even). \<open>binade x\<close> is
  the exponent \<open>e\<close> with \<open>2^e \<le> |x| < 2^(e+1)\<close>; \<open>fl x\<close> is the nearest multiple of
  \<open>2^(e-52)\<close>, the nearest number with a significand of 53 bits. The exponent is not
  bounded: overflow to infinity and subnormal numbers are not modelled (lines 86 and 106
  produce no subnormal number from accepted parameters: the operands are 0 or at least
  1 in magnitude, the quotient is at least \<open>8 / 1.8e308\<close>). The parameters of the
  command are doubles themselves; the definitions take any real.
\<close>

definition round_even :: "real \<Rightarrow> int" where
  "round_even x =
     (let f = \<lfloor>x\<rfloor>
      in if x - of_int f < 1 / 2 then f
         else if 1 / 2 < x - of_int f then f + 1
         else if even f then f else f + 1)"

definition binade :: "real \<Rightarrow> int" where
  "binade x =
     (if 1 \<le> \<bar>x\<bar> then bitlen \<lfloor>\<bar>x\<bar>\<rfloor> - 1 else - bitlen (\<lceil>1 / \<bar>x\<bar>\<rceil> - 1))"

definition fl :: "real \<Rightarrow> real" where
  "fl x = of_int (round_even (x * 2 powi (52 - binade x))) * 2 powi (binade x - 52)"

text \<open>
  Line 86: the subtraction, the division and the addition are each rounded; \<^verbatim>\<open>int\<close>
  truncates the result.
\<close>

definition nb_speed_samples :: "real \<Rightarrow> real \<Rightarrow> int" where
  "nb_speed_samples max_sp incr = py_int (fl (fl (fl (max_sp - MIN_SPEED) / incr) + 1))"

text \<open>
  Line 106: the sample index is converted to a float, the product and the sum are each
  rounded.
\<close>

definition curr_speed :: "real \<Rightarrow> nat \<Rightarrow> real" where
  "curr_speed incr curr_speed_sample = fl (MIN_SPEED + fl (fl (real curr_speed_sample) * incr))"

text \<open>The speeds visited by \<^verbatim>\<open>for curr_speed_sample in range(nb_speed_samples)\<close>.\<close>

definition speed_sequence :: "real \<Rightarrow> real \<Rightarrow> real list" where
  "speed_sequence max_sp incr =
     map (curr_speed incr) [0..<nat (nb_speed_samples max_sp incr)]"

definition segment_length_multiplier :: "real \<Rightarrow> real" where
  "segment_length_multiplier speed =
     (if speed < 100 then 1 / 5 + 4 / 5 * speed / 100 else 1)"

definition movements :: "real \<Rightarrow> nat" where
  "movements speed = (if speed < 150 then 1 else if speed < 250 then 2 else 3)"

subsection \<open>Motion geometry\<close>

definition radians :: "int \<Rightarrow> real" where
  "radians angle = real_of_int angle * pi / 180"

definition dX :: "real \<Rightarrow> real \<Rightarrow> real \<Rightarrow> real" where
  "dX sz radian_angle mult = (sz / 2) * cos radian_angle * mult"

definition dY :: "real \<Rightarrow> real \<Rightarrow> real \<Rightarrow> real" where
  "dY sz radian_angle mult = (sz / 2) * sin radian_angle * mult"

definition endpoint_minus :: "real \<Rightarrow> real \<Rightarrow> real \<Rightarrow> real \<Rightarrow> real \<Rightarrow> real \<times> real" where
  "endpoint_minus mid_x mid_y sz radian_angle mult =
     (mid_x - dX sz radian_angle mult, mid_y - dY sz radian_angle mult)"

definition endpoint_plus :: "real \<Rightarrow> real \<Rightarrow> real \<Rightarrow> real \<Rightarrow> real \<Rightarrow> real \<times> real" where
  "endpoint_plus mid_x mid_y sz radian_angle mult =
     (mid_x + dX sz radian_angle mult, mid_y + dY sz radian_angle mult)"

subsection \<open>One speed sample, one angle, the whole command\<close>

text \<open>The body of the inner loop (lines 106 to 140) for one sample index.\<close>

definition speed_sample :: "params \<Rightarrow> real \<Rightarrow> real \<Rightarrow> real \<Rightarrow> string \<Rightarrow> int \<Rightarrow> nat \<Rightarrow> event list" where
  "speed_sample p mid_x mid_y E chip curr_angle i =
     (let speed = curr_speed (speed_increment p) i;
          mult = segment_length_multiplier speed;
          (mx, my) = endpoint_minus mid_x mid_y (size_param p) (radians curr_angle) mult;
          (px, py) = endpoint_plus mid_x mid_y (size_param p) (radians curr_angle) mult
      in [Move (mx, my, z_height p, E) (feedrate_travel p),
          StartRecording chip curr_angle speed]
         @ concat (replicate (movements speed)
             [Move (px, py, z_height p, E) speed, Move (mx, my, z_height p, E) speed])
         @ [StopRecording chip, Dwell 0.3, WaitMoves])"

definition angle_to_axis :: "int \<Rightarrow> string" where
  "angle_to_axis curr_angle =
     (if curr_angle = 0 then ''x'' else if curr_angle = 90 then ''y'' else ''xy'')"

text \<open>
  The loop over the angles (lines 87 to 140). It stops at the first angle whose
  accelerometer is not a registered object; the events issued so far are kept.
\<close>

fun angles_loop ::
  "params \<Rightarrow> printer \<Rightarrow> real \<Rightarrow> real \<Rightarrow> real \<Rightarrow> int \<Rightarrow> int list \<Rightarrow> event list \<times> (error + unit)" where
  "angles_loop p pr mid_x mid_y E nb [] = ([], Inr ())"
| "angles_loop p pr mid_x mid_y E nb (curr_angle # rest) =
     (let current_accel_chip =
            (case accel_chip p of
               None \<Rightarrow> find_axis_accelerometer pr (angle_to_axis curr_angle)
             | Some c \<Rightarrow> Some c)
      in case current_accel_chip of
           None \<Rightarrow> ([], Inl (AccelerometerNotFound None))
         | Some c \<Rightarrow>
             if c \<notin> set (objects pr) then ([], Inl (AccelerometerNotFound (Some c)))
             else
               (let evs = concat (map (speed_sample p mid_x mid_y E c curr_angle) [0..<nat nb]);
                    (tr, res) = angles_loop p pr mid_x mid_y E nb rest
                in (evs @ tr, res)))"

definition main_angles :: "string \<Rightarrow> error + int list" where
  "main_angles kin =
     (if kin = ''cartesian'' \<or> kin = ''corexz'' then Inr [0, 90]
      else if kin = ''corexy'' then Inr [45, 135]
      else Inl UnsupportedKinematics)"

definition apply_limits :: "int \<Rightarrow> real option \<Rightarrow> event" where
  "apply_limits ac old_mcr =
     (case old_mcr of
        Some m \<Rightarrow> SetVelocityLimit (real_of_int ac) (Some 0) 5
      | None \<Rightarrow> SetVelocityLimit (real_of_int ac) None 5)"

definition restore_limits :: "real \<Rightarrow> real option \<Rightarrow> real \<Rightarrow> event" where
  "restore_limits old_accel old_mcr old_sqv =
     (case old_mcr of
        Some m \<Rightarrow> SetVelocityLimit old_accel (Some m) old_sqv
      | None \<Rightarrow> SetVelocityLimit old_accel None old_sqv)"

text \<open>Lines 34 to 157, on the parameters read.\<close>

definition run_profile :: "params \<Rightarrow> printer \<Rightarrow> event list \<times> (error + unit)" where
  "run_profile p pr =
     (if max_speed p / 60 = 0 then ([], Inl ZeroDivisionError)
      else if size_param p / (max_speed p / 60) < 0.25 then ([], Inl MovementTooSmall)
      else if \<not> input_shaper pr then ([], Inl InputShaperNotConfigured)
      else case main_angles (kinematics pr) of
        Inl e \<Rightarrow> ([], Inl e)
      | Inr angles \<Rightarrow>
         (case toolhead_info pr ''max_accel'' of
            None \<Rightarrow> ([], Inl (KeyError ''max_accel''))
          | Some old_accel \<Rightarrow>
         (case toolhead_info pr ''square_corner_velocity'' of
            None \<Rightarrow> ([], Inl (KeyError ''square_corner_velocity''))
          | Some old_sqv \<Rightarrow>
             (let old_mcr = toolhead_info pr ''minimum_cruise_ratio'';
                  mid_x = (fst (axis_minimum pr) + fst (axis_maximum pr)) / 2;
                  mid_y = (snd (axis_minimum pr) + snd (axis_maximum pr)) / 2;
                  (X, Y, Z, E) = position pr;
                  start = [apply_limits (accel p) old_mcr,
                           Move (X, Y, z_height p, E) (feedrate_travel p / 10),
                           Move (mid_x - 15, mid_y - 15, z_height p, E) (feedrate_travel p),
                           Dwell 0.5]
              in if speed_increment p = 0 then (start, Inl ZeroDivisionError)
                 else
                   (case angles_loop p pr mid_x mid_y E
                           (nb_speed_samples (max_speed p) (speed_increment p)) angles of
                      (tr, Inl e) \<Rightarrow> (start @ tr, Inl e)
                    | (tr, Inr u) \<Rightarrow>
                        (start @ tr
                           @ [restore_limits old_accel old_mcr old_sqv, WaitMoves,
                              Configure (kinematics pr) (accel p), Run, WaitForCompletion],
                         Inr ()))))))"

definition create_vibrations_profile :: "gcmd \<Rightarrow> printer \<Rightarrow> event list \<times> (error + unit)" where
  "create_vibrations_profile g pr =
     (case read_params g of
        Inl e \<Rightarrow> ([], Inl e)
      | Inr p \<Rightarrow> run_profile p pr)"

subsection \<open>Observations on the list of events\<close>

fun is_set_velocity_limit :: "event \<Rightarrow> bool" where
  "is_set_velocity_limit (SetVelocityLimit a m s) = True"
| "is_set_velocity_limit ev = False"

fun is_start_recording :: "event \<Rightarrow> bool" where
  "is_start_recording (StartRecording c a s) = True"
| "is_start_recording ev = False"

fun is_stop_recording :: "event \<Rightarrow> bool" where
  "is_stop_recording (StopRecording c) = True"
| "is_stop_recording ev = False"

text \<open>A move keeps the height \<open>z\<close> and the extruder coordinate \<open>e\<close>.\<close>

fun keeps_Z_E :: "real \<Rightarrow> real \<Rightarrow> event \<Rightarrow> bool" where
  "keeps_Z_E z e (Move (x', y', z', e') f) = (z' = z \<and> e' = e)"
| "keeps_Z_E z e ev = True"

fun writes_no_cruise_ratio :: "event \<Rightarrow> bool" where
  "writes_no_cruise_ratio (SetVelocityLimit a m s) = (m = None)"
| "writes_no_cruise_ratio ev = True"

text \<open>
  A monitor of the whole protocol of the command, for the travel feedrate \<open>ft\<close>. The
  command first writes the velocity limits, raises the toolhead at \<open>ft / 10\<close>, moves
  to the start position at \<open>ft\<close> and dwells 0.5. From then on (\<open>Idle\<close>) a sample
  begins with one approach move at \<open>ft\<close> and nothing else; the recording is started
  right after the approach move (\<open>Approached\<close>); while it is open
  (\<open>Recording chip speed n\<close>, \<open>n\<close> moves seen) nothing but moves at the speed of the
  recording may be issued; it is stopped by the accelerometer that started it, once all
  the \<open>2 * movements speed\<close> moves of the sample have been issued; the stop is followed
  at once by the dwell of 0.3 and then by the drain, which leads back to \<open>Idle\<close>. From
  \<open>Idle\<close> the velocity limits may be written again, followed by the drain and the
  post-processing calls. Any other event, in particular a move outside an open recording
  that is not the single approach move of a sample, is a \<open>Violation\<close>.
\<close>

datatype sync_state =
    Initial | Raising | Positioning | Dwelling
  | Idle | Approached | Recording string real nat | Stopped | Settled
  | Restored | Drained | Configured | Running | Finished
  | Violation

definition sync_step :: "real \<Rightarrow> sync_state \<Rightarrow> event \<Rightarrow> sync_state" where
  "sync_step ft st ev =
     (case st of
        Initial \<Rightarrow> (case ev of SetVelocityLimit a m s \<Rightarrow> Raising | _ \<Rightarrow> Violation)
      | Raising \<Rightarrow>
          (case ev of
             Move pos f \<Rightarrow> if f = ft / 10 then Positioning else Violation
           | _ \<Rightarrow> Violation)
      | Positioning \<Rightarrow>
          (case ev of Move pos f \<Rightarrow> if f = ft then Dwelling else Violation | _ \<Rightarrow> Violation)
      | Dwelling \<Rightarrow>
          (case ev of Dwell d \<Rightarrow> if d = 0.5 then Idle else Violation | _ \<Rightarrow> Violation)
      | Idle \<Rightarrow>
          (case ev of
             Move pos f \<Rightarrow> if f = ft then Approached else Violation
           | SetVelocityLimit a m s \<Rightarrow> Restored
           | _ \<Rightarrow> Violation)
      | Approached \<Rightarrow>
          (case ev of StartRecording c a s \<Rightarrow> Recording c s 0 | _ \<Rightarrow> Violation)
      | Recording c s n \<Rightarrow>
          (case ev of
             Move pos f \<Rightarrow> if f = s then Recording c s (Suc n) else Violation
           | StopRecording c' \<Rightarrow>
               if c' = c \<and> n = 2 * movements s then Stopped else Violation
           | _ \<Rightarrow> Violation)
      | Stopped \<Rightarrow>
          (case ev of Dwell d \<Rightarrow> if d = 0.3 then Settled else Violation | _ \<Rightarrow> Violation)
      | Settled \<Rightarrow> (case ev of WaitMoves \<Rightarrow> Idle | _ \<Rightarrow> Violation)
      | Restored \<Rightarrow> (case ev of WaitMoves \<Rightarrow> Drained | _ \<Rightarrow> Violation)
      | Drained \<Rightarrow> (case ev of Configure k a \<Rightarrow> Configured | _ \<Rightarrow> Violation)
      | Configured \<Rightarrow> (case ev of Run \<Rightarrow> Running | _ \<Rightarrow> Violation)
      | Running \<Rightarrow> (case ev of WaitForCompletion \<Rightarrow> Finished | _ \<Rightarrow> Violation)
      | Finished \<Rightarrow> Violation
      | Violation \<Rightarrow> Violation)"

definition sync_run :: "real \<Rightarrow> event list \<Rightarrow> sync_state" where
  "sync_run ft tr = foldl (sync_step ft) Initial tr"

text \<open>
  The states in which the command may end: nothing issued, aborted between two samples,
  or completed.
\<close>

definition accepting :: "sync_state \<Rightarrow> bool" where
  "accepting st = (st = Initial \<or> st = Idle \<or> st = Finished)"

text \<open>What every event list produced inside the sweep loops satisfies.\<close>

definition sample_props :: "real \<Rightarrow> real \<Rightarrow> real \<Rightarrow> event list \<Rightarrow> bool" where
  "sample_props ft z e tr \<longleftrightarrow>
     filter is_set_velocity_limit tr = []
     \<and> list_all (keeps_Z_E z e) tr
     \<and> foldl (sync_step ft) Idle tr = Idle
     \<and> length (filter is_start_recording tr) = length (filter is_stop_recording tr)"

text \<open>The events before and after the loops, named for the proofs.\<close>

definition start_events :: "params \<Rightarrow> printer \<Rightarrow> event list" where
  "start_events p pr =
     [apply_limits (accel p) (toolhead_info pr ''minimum_cruise_ratio''),
      Move (fst (position pr), fst (snd (position pr)), z_height p, snd (snd (snd (position pr))))
        (feedrate_travel p / 10),
      Move ((fst (axis_minimum pr) + fst (axis_maximum pr)) / 2 - 15,
            (snd (axis_minimum pr) + snd (axis_maximum pr)) / 2 - 15,
            z_height p, snd (snd (snd (position pr))))
        (feedrate_travel p),
      Dwell 0.5]"

definition end_events :: "params \<Rightarrow> printer \<Rightarrow> real \<Rightarrow> real \<Rightarrow> event list" where
  "end_events p pr old_accel old_sqv =
     [restore_limits old_accel (toolhead_info pr ''minimum_cruise_ratio'') old_sqv, WaitMoves,
      Configure (kinematics pr) (accel p), Run, WaitForCompletion]"

text \<open>The angle and speed of every recording started, in order.\<close>

fun recorded :: "event list \<Rightarrow> (int \<times> real) list" where
  "recorded [] = []"
| "recorded (StartRecording c a s # evs) = (a, s) # recorded evs"
| "recorded (ev # evs) = recorded evs"

subsection \<open>Concrete inputs\<close>

text \<open>
  A command with \<^verbatim>\<open>MAX_SPEED=10 SPEED_INCREMENT=8\<close> (two speed samples, 2 and 10) on
  a CoreXY printer with one accelerometer; the same printer on an older firmware
  without \<^verbatim>\<open>minimum_cruise_ratio\<close>; the same printer with no accelerometer found; a
  delta printer; and a command whose maximum speed is too high for its size.
\<close>

definition example_gcmd :: gcmd where
  "example_gcmd =
     \<lparr> SIZE = None, Z_HEIGHT = None, MAX_SPEED = Some 10, SPEED_INCREMENT = Some 8,
       ACCEL = None, TRAVEL_SPEED = None, ACCEL_CHIP = None \<rparr>"

definition example_params :: params where
  "example_params =
     \<lparr> size_param = 100, z_height = 20, max_speed = 10, speed_increment = 8,
       accel = 3000, feedrate_travel = 120, accel_chip = None \<rparr>"

definition example_printer :: printer where
  "example_printer =
     \<lparr> input_shaper = True, kinematics = ''corexy'',
       toolhead_info = [''max_accel'' \<mapsto> 1500, ''square_corner_velocity'' \<mapsto> 8,
                        ''minimum_cruise_ratio'' \<mapsto> 1 / 2],
       axis_minimum = (0, 0), axis_maximum = (200, 200), position = (10, 10, 5, 0),
       find_axis_accelerometer = (\<lambda>axis. Some ''adxl345''), objects = [''adxl345''] \<rparr>"

definition old_firmware_printer :: printer where
  "old_firmware_printer =
     example_printer \<lparr> toolhead_info :=
       [''max_accel'' \<mapsto> 1500, ''square_corner_velocity'' \<mapsto> 8] \<rparr>"

definition no_accelerometer_printer :: printer where
  "no_accelerometer_printer =
     example_printer \<lparr> find_axis_accelerometer := (\<lambda>axis. None), objects := [] \<rparr>"

definition delta_printer :: printer where
  "delta_printer = example_printer \<lparr> kinematics := ''delta'' \<rparr>"

text \<open>A command with a size below the minimum of 50.\<close>

definition bad_size_gcmd :: gcmd where
  "bad_size_gcmd =
     \<lparr> SIZE = Some 10, Z_HEIGHT = None, MAX_SPEED = None, SPEED_INCREMENT = None,
       ACCEL = None, TRAVEL_SPEED = None, ACCEL_CHIP = None \<rparr>"

definition too_fast_gcmd :: gcmd where
  "too_fast_gcmd =
     \<lparr> SIZE = Some 50, Z_HEIGHT = None, MAX_SPEED = Some 12001, SPEED_INCREMENT = None,
       ACCEL = None, TRAVEL_SPEED = None, ACCEL_CHIP = None \<rparr>"

text \<open>
  \<^verbatim>\<open>MAX_SPEED=16.06 SPEED_INCREMENT=7.03\<close>: the two parameters are the doubles nearest
  to 16.06 and 7.03.
\<close>

definition rounding_gcmd :: gcmd where
  "rounding_gcmd =
     \<lparr> SIZE = None, Z_HEIGHT = None,
       MAX_SPEED = Some (4520488125973135 / 281474976710656),
       SPEED_INCREMENT = Some (7915076345103647 / 1125899906842624),
       ACCEL = None, TRAVEL_SPEED = None, ACCEL_CHIP = None \<rparr>"

definition rounding_params :: params where
  "rounding_params =
     \<lparr> size_param = 100, z_height = 20,
       max_speed = 4520488125973135 / 281474976710656,
       speed_increment = 7915076345103647 / 1125899906842624,
       accel = 3000, feedrate_travel = 120, accel_chip = None \<rparr>"

definition too_fast_params :: params where
  "too_fast_params =
     \<lparr> size_param = 50, z_height = 20, max_speed = 12001, speed_increment = 2,
       accel = 3000, feedrate_travel = 120, accel_chip = None \<rparr>"

section \<open>Auxiliary facts\<close>

subsection \<open>Parameters\<close>

lemma get_float_min: "get_float name given dflt (Some m) = Inr v \<Longrightarrow> m \<le> v"
  by (simp add: get_float_def Let_def split: if_splits)

lemma get_int_min: "get_int name given dflt (Some m) = Inr v \<Longrightarrow> m \<le> v"
  by (simp add: get_int_def Let_def split: if_splits)

lemma bind_err_Inr: "bind_err m f = Inr y \<Longrightarrow> \<exists>x. m = Inr x \<and> f x = Inr y"
  by (cases m) simp_all

text \<open>The minimum values enforced while the parameters are read.\<close>

lemma read_params_range:
  assumes "read_params g = Inr p"
  shows "50 \<le> size_param p \<and> 10 \<le> max_speed p \<and> 1 \<le> speed_increment p
         \<and> 100 \<le> accel p \<and> 20 \<le> feedrate_travel p"
proof -
  from assms obtain sz zh ms si ac ft where
    "get_float ''SIZE'' (SIZE g) 100 (Some 50) = Inr sz"
    "get_float ''MAX_SPEED'' (MAX_SPEED g) 200 (Some 10) = Inr ms"
    "get_float ''SPEED_INCREMENT'' (SPEED_INCREMENT g) 2 (Some 1) = Inr si"
    "get_int ''ACCEL'' (ACCEL g) 3000 (Some 100) = Inr ac"
    "get_float ''TRAVEL_SPEED'' (TRAVEL_SPEED g) 120 (Some 20) = Inr ft"
    and p: "p = \<lparr> size_param = sz, z_height = zh, max_speed = ms, speed_increment = si,
           accel = ac, feedrate_travel = ft,
           accel_chip = (if ACCEL_CHIP g = Some [] then None else ACCEL_CHIP g) \<rparr>"
    unfolding read_params_def by (fastforce dest!: bind_err_Inr)
  then show ?thesis
    by (auto dest!: get_float_min get_int_min)
qed

lemma profile_of_params:
  "read_params g = Inr p \<Longrightarrow> create_vibrations_profile g pr = run_profile p pr"
  by (simp add: create_vibrations_profile_def)

lemma profile_of_bad_params:
  "read_params g = Inl e \<Longrightarrow> create_vibrations_profile g pr = ([], Inl e)"
  by (simp add: create_vibrations_profile_def)

subsection \<open>Rounding to double precision\<close>

lemma round_even_of_int: "round_even (of_int n) = n"
  by (simp add: round_even_def)

lemma round_even_mono: "x \<le> y \<Longrightarrow> round_even x \<le> round_even y"
proof -
  assume xy: "x \<le> y"
  have fx: "\<lfloor>x\<rfloor> \<le> \<lfloor>y\<rfloor>" using xy by (rule floor_mono)
  have lo: "\<lfloor>y\<rfloor> \<le> round_even y" by (simp add: round_even_def Let_def)
  have hi: "round_even x \<le> \<lfloor>x\<rfloor> + 1" by (simp add: round_even_def Let_def)
  show ?thesis
  proof (cases "\<lfloor>x\<rfloor> < \<lfloor>y\<rfloor>")
    case True
    with lo hi show ?thesis by linarith
  next
    case False
    with fx have "\<lfloor>x\<rfloor> = \<lfloor>y\<rfloor>" by simp
    with xy show ?thesis
      by (auto simp: round_even_def Let_def)
  qed
qed

lemma round_even_nonneg: "0 \<le> x \<Longrightarrow> 0 \<le> round_even x"
  using round_even_mono [of 0 x] round_even_of_int [of 0] by simp

lemma binade_bounds:
  assumes "x \<noteq> 0"
  shows "2 powi binade x \<le> \<bar>x\<bar> \<and> \<bar>x\<bar> < 2 powi (binade x + 1)"
proof (cases "1 \<le> \<bar>x\<bar>")
  case True
  let ?m = "\<lfloor>\<bar>x\<bar>\<rfloor>"
  have m: "0 < ?m" using True by simp
  from bitlen_bounds [OF m] have b: "2 ^ nat (bitlen ?m - 1) \<le> ?m" "?m < 2 ^ nat (bitlen ?m)"
    by auto
  have b1: "1 \<le> bitlen ?m" using m by (simp add: bitlen_alt_def)
  have e: "binade x = bitlen ?m - 1" using True by (simp add: binade_def)
  have "real_of_int (2 ^ nat (bitlen ?m - 1)) \<le> real_of_int ?m"
    using b(1) by (rule of_int_le_iff [THEN iffD2])
  also have "\<dots> \<le> \<bar>x\<bar>" by (rule of_int_floor_le)
  finally have "2 ^ nat (bitlen ?m - 1) \<le> \<bar>x\<bar>" by simp
  then have lo: "2 powi binade x \<le> \<bar>x\<bar>"
    using b1 by (simp add: e power_int_def)
  have "?m + 1 \<le> 2 ^ nat (bitlen ?m)" using b(2) by simp
  then have "real_of_int (?m + 1) \<le> real_of_int (2 ^ nat (bitlen ?m))"
    by (rule of_int_le_iff [THEN iffD2])
  then have "real_of_int ?m + 1 \<le> 2 ^ nat (bitlen ?m)" by simp
  moreover have "\<bar>x\<bar> < real_of_int ?m + 1" by linarith
  ultimately have "\<bar>x\<bar> < 2 ^ nat (bitlen ?m)" by (rule less_le_trans [rotated])
  then have hi: "\<bar>x\<bar> < 2 powi (binade x + 1)"
    using b1 by (simp add: e power_int_def)
  from lo hi show ?thesis ..
next
  case False
  let ?y = "1 / \<bar>x\<bar>"
  let ?k = "\<lceil>?y\<rceil> - 1"
  have x: "0 < \<bar>x\<bar>" "\<bar>x\<bar> < 1" using assms False by auto
  have y: "1 < ?y" using x by simp
  have k: "0 < ?k" using y by simp
  have ky: "real_of_int ?k < ?y" "?y \<le> real_of_int ?k + 1" by linarith+
  from bitlen_bounds [OF k] have b: "2 ^ nat (bitlen ?k - 1) \<le> ?k" "?k < 2 ^ nat (bitlen ?k)"
    by auto
  have b1: "1 \<le> bitlen ?k" using k by (simp add: bitlen_alt_def)
  have e: "binade x = - bitlen ?k" using False by (simp add: binade_def)
  have "\<lceil>?y\<rceil> \<le> 2 ^ nat (bitlen ?k)" using b(2) by simp
  then have "real_of_int \<lceil>?y\<rceil> \<le> real_of_int (2 ^ nat (bitlen ?k))"
    by (rule of_int_le_iff [THEN iffD2])
  then have "real_of_int \<lceil>?y\<rceil> \<le> 2 ^ nat (bitlen ?k)" by simp
  with le_of_int_ceiling [of ?y] have "?y \<le> 2 ^ nat (bitlen ?k)" by (rule order_trans)
  then have "1 \<le> 2 ^ nat (bitlen ?k) * \<bar>x\<bar>" using x(1) by (simp add: pos_divide_le_eq)
  then have "1 / 2 ^ nat (bitlen ?k) \<le> \<bar>x\<bar>" by (simp add: pos_divide_le_eq mult.commute)
  moreover have "(2::real) powi binade x = 1 / 2 ^ nat (bitlen ?k)"
    using b1 by (simp add: e power_int_minus power_int_def field_simps)
  ultimately have lo: "2 powi binade x \<le> \<bar>x\<bar>" by simp
  have "real_of_int (2 ^ nat (bitlen ?k - 1)) \<le> real_of_int ?k"
    using b(1) by (rule of_int_le_iff [THEN iffD2])
  then have "2 ^ nat (bitlen ?k - 1) \<le> real_of_int ?k" by simp
  then have "2 ^ nat (bitlen ?k - 1) < ?y" using ky(1) by (rule le_less_trans)
  then have "2 ^ nat (bitlen ?k - 1) * \<bar>x\<bar> < 1" using x(1) by (simp add: pos_less_divide_eq)
  then have "\<bar>x\<bar> < 1 / 2 ^ nat (bitlen ?k - 1)" by (simp add: pos_less_divide_eq mult.commute)
  moreover have "(2::real) powi (binade x + 1) = 1 / 2 ^ nat (bitlen ?k - 1)"
  proof -
    have "binade x + 1 = - (bitlen ?k - 1)" by (simp add: e)
    then have "(2::real) powi (binade x + 1) = 2 powi (- (bitlen ?k - 1))" by simp
    also have "\<dots> = 1 / 2 ^ nat (bitlen ?k - 1)"
      using b1 by (simp add: power_int_minus power_int_def field_simps)
    finally show ?thesis .
  qed
  ultimately have hi: "\<bar>x\<bar> < 2 powi (binade x + 1)" by simp
  from lo hi show ?thesis ..
qed

lemma two_powi_mono: "a \<le> b \<Longrightarrow> (2::real) powi a \<le> 2 powi b"
  by (rule power_int_increasing) simp_all

lemma scale_back: "(2::real) ^ n * 2 powi (e - int n) = 2 powi e"
proof -
  have "(2::real) ^ n * 2 powi (e - int n) = 2 powi int n * 2 powi (e - int n)"
    by simp
  also have "\<dots> = 2 powi (int n + (e - int n))"
    by (rule power_int_add [symmetric]) simp
  finally show ?thesis by simp
qed

lemma binade_unique:
  assumes "2 powi e \<le> \<bar>x\<bar>" and "\<bar>x\<bar> < 2 powi (e + 1)"
  shows "binade x = e"
proof -
  have "(0::real) < 2 powi e" by (rule zero_less_power_int) simp
  then have "0 < \<bar>x\<bar>" using assms(1) by (rule less_le_trans)
  then have x: "x \<noteq> 0" by simp
  note b = binade_bounds [OF x]
  have "\<not> binade x < e"
  proof
    assume "binade x < e"
    then have "(2::real) powi (binade x + 1) \<le> 2 powi e" by (intro two_powi_mono) simp
    with b assms(1) show False by linarith
  qed
  moreover have "\<not> e < binade x"
  proof
    assume "e < binade x"
    then have "(2::real) powi (e + 1) \<le> 2 powi binade x" by (intro two_powi_mono) simp
    with b assms(2) show False by linarith
  qed
  ultimately show ?thesis by simp
qed

lemma fl_eval:
  assumes "2 powi e \<le> \<bar>x\<bar>" and "\<bar>x\<bar> < 2 powi (e + 1)"
  shows "fl x = of_int (round_even (x * 2 powi (52 - e))) * 2 powi (e - 52)"
  by (simp add: fl_def binade_unique [OF assms])

lemma fl_zero: "fl 0 = 0"
  by (simp add: fl_def round_even_def)

lemma fl_nonneg: "0 \<le> x \<Longrightarrow> 0 \<le> fl x"
  by (simp add: fl_def round_even_nonneg)

lemma binade_mono:
  assumes "0 < x" and "x \<le> y"
  shows "binade x \<le> binade y"
proof (rule ccontr)
  assume "\<not> binade x \<le> binade y"
  then have "(2::real) powi (binade y + 1) \<le> 2 powi binade x" by (intro two_powi_mono) simp
  moreover have "y < 2 powi (binade y + 1)" using binade_bounds [of y] assms by simp
  moreover have "2 powi binade x \<le> x" using binade_bounds [of x] assms by simp
  ultimately show False using assms(2) by linarith
qed

lemma fl_lower:
  assumes "0 < x"
  shows "2 powi binade x \<le> fl x"
proof -
  have "2 powi binade x \<le> x" using binade_bounds [of x] assms by simp
  then have "2 powi binade x * 2 powi (52 - binade x) \<le> x * 2 powi (52 - binade x)"
    by (intro mult_right_mono) simp_all
  moreover have "(2::real) powi binade x * 2 powi (52 - binade x) = 2 ^ 52"
    by (simp add: power_int_add [symmetric])
  ultimately have "real_of_int (2 ^ 52) \<le> x * 2 powi (52 - binade x)" by simp
  then have "round_even (real_of_int (2 ^ 52)) \<le> round_even (x * 2 powi (52 - binade x))"
    by (rule round_even_mono)
  then have "2 ^ 52 \<le> round_even (x * 2 powi (52 - binade x))"
    by (simp only: round_even_of_int)
  then have "real_of_int (2 ^ 52) \<le> real_of_int (round_even (x * 2 powi (52 - binade x)))"
    by (rule of_int_le_iff [THEN iffD2])
  then have "real_of_int (2 ^ 52) * 2 powi (binade x - 52) \<le> fl x"
    unfolding fl_def by (intro mult_right_mono) simp_all
  moreover have "real_of_int (2 ^ 52) * 2 powi (binade x - 52) = 2 powi binade x"
    using scale_back [of 52 "binade x"] by simp
  ultimately show ?thesis by simp
qed

lemma fl_upper:
  assumes "0 < x"
  shows "fl x \<le> 2 powi (binade x + 1)"
proof -
  have "x \<le> 2 powi (binade x + 1)" using binade_bounds [of x] assms by simp
  then have "x * 2 powi (52 - binade x) \<le> 2 powi (binade x + 1) * 2 powi (52 - binade x)"
    by (intro mult_right_mono) simp_all
  moreover have "(2::real) powi (binade x + 1) * 2 powi (52 - binade x) = 2 ^ 53"
    by (simp add: power_int_add [symmetric])
  ultimately have "x * 2 powi (52 - binade x) \<le> real_of_int (2 ^ 53)" by simp
  then have "round_even (x * 2 powi (52 - binade x)) \<le> round_even (real_of_int (2 ^ 53))"
    by (rule round_even_mono)
  then have "round_even (x * 2 powi (52 - binade x)) \<le> 2 ^ 53"
    by (simp only: round_even_of_int)
  then have "real_of_int (round_even (x * 2 powi (52 - binade x))) \<le> real_of_int (2 ^ 53)"
    by (rule of_int_le_iff [THEN iffD2])
  then have "fl x \<le> real_of_int (2 ^ 53) * 2 powi (binade x - 52)"
    unfolding fl_def by (intro mult_right_mono) simp_all
  moreover have "real_of_int (2 ^ 53) * 2 powi (binade x - 52) = 2 powi (binade x + 1)"
    using scale_back [of 53 "binade x + 1"] by simp
  ultimately show ?thesis by simp
qed

lemma fl_mono:
  assumes "0 \<le> x" and "x \<le> y"
  shows "fl x \<le> fl y"
proof (cases "x = 0")
  case True
  then show ?thesis using assms fl_nonneg [of y] by (simp add: fl_zero)
next
  case False
  then have x: "0 < x" and y: "0 < y" using assms by simp_all
  have le: "binade x \<le> binade y" using x assms(2) by (rule binade_mono)
  show ?thesis
  proof (cases "binade x = binade y")
    case True
    have "x * 2 powi (52 - binade y) \<le> y * 2 powi (52 - binade y)"
      using assms(2) by (intro mult_right_mono) simp_all
    then have "round_even (x * 2 powi (52 - binade y)) \<le> round_even (y * 2 powi (52 - binade y))"
      by (rule round_even_mono)
    then have "real_of_int (round_even (x * 2 powi (52 - binade y)))
        \<le> real_of_int (round_even (y * 2 powi (52 - binade y)))"
      by (rule of_int_le_iff [THEN iffD2])
    then show ?thesis
      unfolding fl_def True by (intro mult_right_mono) simp_all
  next
    case False
    with le have "binade x + 1 \<le> binade y" by simp
    then have "(2::real) powi (binade x + 1) \<le> 2 powi binade y" by (rule two_powi_mono)
    with fl_upper [OF x] fl_lower [OF y] show ?thesis by linarith
  qed
qed

lemma fl_of_int:
  assumes "\<bar>n\<bar> < 2 ^ 53"
  shows "fl (of_int n) = of_int n"
proof (cases "n = 0")
  case True
  then show ?thesis by (simp add: fl_zero)
next
  case False
  let ?e = "binade (of_int n)"
  have nz: "real_of_int n \<noteq> 0" using False by simp
  have "2 powi ?e \<le> \<bar>real_of_int n\<bar>" using binade_bounds [OF nz] by simp
  also have "\<dots> < 2 powi 53"
  proof -
    have "real_of_int \<bar>n\<bar> < real_of_int (2 ^ 53)" using assms by (rule of_int_less_iff [THEN iffD2])
    then show ?thesis by simp
  qed
  finally have "(2::real) powi ?e < 2 powi 53" .
  have e: "?e < 53"
  proof (rule ccontr)
    assume "\<not> ?e < 53"
    then have "(2::real) powi 53 \<le> 2 powi ?e" by (intro two_powi_mono) simp
    with \<open>(2::real) powi ?e < 2 powi 53\<close> show False by linarith
  qed
  then have "0 \<le> 52 - ?e" by simp
  then have "(2::real) powi (52 - ?e) = of_int (2 ^ nat (52 - ?e))"
    by (simp add: power_int_def)
  then have "real_of_int n * 2 powi (52 - ?e) = of_int (n * 2 ^ nat (52 - ?e))"
    by simp
  then have "round_even (real_of_int n * 2 powi (52 - ?e)) = n * 2 ^ nat (52 - ?e)"
    by (simp only: round_even_of_int)
  then have "fl (of_int n) = of_int (n * 2 ^ nat (52 - ?e)) * 2 powi (?e - 52)"
    by (simp add: fl_def)
  also have "\<dots> = of_int n * (2 powi (52 - ?e) * 2 powi (?e - 52))"
    using \<open>0 \<le> 52 - ?e\<close> by (simp add: power_int_def)
  also have "2 powi (52 - ?e) * 2 powi (?e - 52) = (1::real)"
    by (simp add: power_int_add [symmetric])
  finally show ?thesis by simp
qed

lemma fl_ge_one: "1 \<le> x \<Longrightarrow> 1 \<le> fl x"
  using fl_mono [of 1 x] fl_of_int [of 1] by simp

lemma fl_numeral: "(numeral k :: int) < 2 ^ 53 \<Longrightarrow> fl (numeral k) = numeral k"
  using fl_of_int [of "numeral k"] by simp

lemma fl_one: "fl 1 = 1"
  using fl_of_int [of 1] by simp

lemma fl_real_small: "n < 2 ^ 53 \<Longrightarrow> fl (real n) = real n"
proof -
  assume "n < 2 ^ 53"
  then have "\<bar>int n\<bar> < 2 ^ 53" by (simp add: nat_less_iff [symmetric] nat_power_eq)
  from fl_of_int [OF this] show ?thesis by simp
qed

subsection \<open>Speed samples\<close>

lemma nb_speed_samples_floor:
  assumes "MIN_SPEED \<le> ms" and "0 < incr"
  shows "nb_speed_samples ms incr = \<lfloor>fl (fl (fl (ms - 2) / incr) + 1)\<rfloor>"
    and "1 \<le> nb_speed_samples ms incr"
proof -
  have "0 \<le> fl (ms - 2)" using assms(1) by (intro fl_nonneg) (simp add: MIN_SPEED_def)
  then have "0 \<le> fl (ms - 2) / incr" using assms(2) by simp
  then have "0 \<le> fl (fl (ms - 2) / incr)" by (rule fl_nonneg)
  then have "1 \<le> fl (fl (ms - 2) / incr) + 1" by simp
  then have 1: "1 \<le> fl (fl (fl (ms - 2) / incr) + 1)" by (rule fl_ge_one)
  then show "nb_speed_samples ms incr = \<lfloor>fl (fl (fl (ms - 2) / incr) + 1)\<rfloor>"
    by (simp add: nb_speed_samples_def py_int_def MIN_SPEED_def)
  with 1 show "1 \<le> nb_speed_samples ms incr"
    by (simp add: le_floor_iff)
qed

lemma curr_speed_zero: "curr_speed incr 0 = 2"
  by (simp add: curr_speed_def MIN_SPEED_def fl_zero fl_numeral)

lemma curr_speed_mono:
  assumes "0 \<le> incr" and "i \<le> j"
  shows "curr_speed incr i \<le> curr_speed incr j"
proof -
  have "fl (real i) \<le> fl (real j)" using assms(2) by (intro fl_mono) simp_all
  moreover have "0 \<le> fl (real i)" by (intro fl_nonneg) simp
  ultimately have "0 \<le> fl (real i) * incr" "fl (real i) * incr \<le> fl (real j) * incr"
    using assms(1) by (simp_all add: mult_right_mono)
  then have "0 \<le> fl (fl (real i) * incr)" "fl (fl (real i) * incr) \<le> fl (fl (real j) * incr)"
    by (simp_all add: fl_nonneg fl_mono)
  then have "0 \<le> MIN_SPEED + fl (fl (real i) * incr)"
    "MIN_SPEED + fl (fl (real i) * incr) \<le> MIN_SPEED + fl (fl (real j) * incr)"
    by (simp_all add: MIN_SPEED_def)
  then show ?thesis unfolding curr_speed_def by (rule fl_mono)
qed

lemma curr_speed_ge_min: "0 \<le> incr \<Longrightarrow> MIN_SPEED \<le> curr_speed incr i"
  using curr_speed_mono [of incr 0 i] by (simp add: curr_speed_zero MIN_SPEED_def)

lemma multiplier_range:
  "0 \<le> s \<Longrightarrow> 0 < segment_length_multiplier s \<and> segment_length_multiplier s \<le> 1"
  by (simp add: segment_length_multiplier_def add_pos_nonneg)

lemma multiplier_as_min: "segment_length_multiplier s = min 1 (1 / 5 + 4 / 5 * s / 100)"
  by (simp add: segment_length_multiplier_def min_def)

lemma multiplier_continuous: "isCont segment_length_multiplier 100"
proof -
  have "segment_length_multiplier = (\<lambda>s. min 1 (1 / 5 + 4 / 5 * s / 100))"
    by (rule ext) (rule multiplier_as_min)
  moreover have "isCont (\<lambda>s::real. min 1 (1 / 5 + 4 / 5 * s / 100)) 100"
    by (intro continuous_intros) simp
  ultimately show ?thesis by simp
qed

subsection \<open>Events of the loops\<close>

lemma sample_props_Nil: "sample_props ft z e []"
  by (simp add: sample_props_def)

lemma sample_props_append:
  "sample_props ft z e xs \<Longrightarrow> sample_props ft z e ys \<Longrightarrow> sample_props ft z e (xs @ ys)"
  by (simp add: sample_props_def)

lemma sample_props_concat:
  "(\<And>x. x \<in> set xs \<Longrightarrow> sample_props ft z e x) \<Longrightarrow> sample_props ft z e (concat xs)"
  by (induction xs) (simp_all add: sample_props_Nil sample_props_append)

lemma sync_pairs:
  "foldl (sync_step ft) (Recording c s n) (concat (replicate k [Move a s, Move b s]))
     = Recording c s (n + 2 * k)"
  by (induction k arbitrary: n) (simp_all add: sync_step_def)

lemma pairs_no_velocity_limit:
  "filter is_set_velocity_limit (concat (replicate k [Move a s, Move b s])) = []"
  by (induction k) simp_all

lemma pairs_no_start:
  "filter is_start_recording (concat (replicate k [Move a s, Move b s])) = []"
  by (induction k) simp_all

lemma pairs_no_stop:
  "filter is_stop_recording (concat (replicate k [Move a s, Move b s])) = []"
  by (induction k) simp_all

lemma pairs_keep_Z_E:
  "list_all (keeps_Z_E z e)
     (concat (replicate k [Move (x1, y1, z, e) s, Move (x2, y2, z, e) s]))"
  by (induction k) simp_all

lemma speed_sample_props:
  "sample_props (feedrate_travel p) (z_height p) E (speed_sample p mid_x mid_y E c a i)"
  by (simp add: sample_props_def speed_sample_def Let_def split_def sync_pairs
      pairs_no_velocity_limit pairs_no_start pairs_no_stop pairs_keep_Z_E sync_step_def)

lemma angles_loop_props:
  "sample_props (feedrate_travel p) (z_height p) E (fst (angles_loop p pr mid_x mid_y E nb angles))"
proof (induction angles)
  case Nil
  show ?case by (simp add: sample_props_Nil)
next
  case (Cons a angles)
  have "sample_props (feedrate_travel p) (z_height p) E
          (concat (map (speed_sample p mid_x mid_y E c a) [0..<nat nb]))" for c
    by (rule sample_props_concat) (auto simp: speed_sample_props)
  with Cons show ?case
    by (auto simp: Let_def split_def sample_props_Nil sample_props_append
        split: option.splits)
qed

lemma angles_loop_error:
  "snd (angles_loop p pr mid_x mid_y E nb angles) = Inl e
     \<Longrightarrow> \<exists>c. e = AccelerometerNotFound c"
  by (induction angles) (auto simp: Let_def split_def split: option.splits if_splits)

subsection \<open>Events of the whole command\<close>

text \<open>
  Either the command fails before anything is issued, or the limits are applied and the
  loops run; the restore and the post-processing follow on normal completion only.
\<close>

lemma run_profile_shape:
  assumes "run_profile p pr = (tr, res)"
  shows "(tr = [] \<and> (\<exists>e. res = Inl e \<and> (\<forall>c. e \<noteq> AccelerometerNotFound c)
            \<and> (e = MovementTooSmall \<longleftrightarrow>
                 max_speed p / 60 \<noteq> 0 \<and> size_param p / (max_speed p / 60) < 0.25)
            \<and> (e = UnsupportedKinematics \<longleftrightarrow>
                 max_speed p / 60 \<noteq> 0 \<and> \<not> size_param p / (max_speed p / 60) < 0.25
                 \<and> input_shaper pr \<and> main_angles (kinematics pr) = Inl UnsupportedKinematics)))
       \<or> (\<exists>old_accel old_sqv lp.
            toolhead_info pr ''max_accel'' = Some old_accel
          \<and> toolhead_info pr ''square_corner_velocity'' = Some old_sqv
          \<and> \<not> size_param p / (max_speed p / 60) < 0.25
          \<and> (\<exists>a. main_angles (kinematics pr) = Inr a)
          \<and> sample_props (feedrate_travel p) (z_height p) (snd (snd (snd (position pr)))) lp
          \<and> ((res = Inr () \<and> tr = start_events p pr @ lp @ end_events p pr old_accel old_sqv)
             \<or> ((\<exists>c. res = Inl (AccelerometerNotFound c)) \<or> res = Inl ZeroDivisionError)
                 \<and> tr = start_events p pr @ lp))"
proof -
  let ?E = "snd (snd (snd (position pr)))"
  let ?mx = "(fst (axis_minimum pr) + fst (axis_maximum pr)) / 2"
  let ?my = "(snd (axis_minimum pr) + snd (axis_maximum pr)) / 2"
  let ?nb = "nb_speed_samples (max_speed p) (speed_increment p)"
  show ?thesis
  proof (cases "speed_increment p = 0")
    case True
    with assms show ?thesis
      by (auto simp: run_profile_def Let_def split_def start_events_def main_angles_def
          sample_props_Nil split: if_splits option.splits sum.splits)
  next
    case False
    have "\<exists>a. main_angles (kinematics pr) = Inl UnsupportedKinematics
             \<or> main_angles (kinematics pr) = Inr a"
      by (cases "main_angles (kinematics pr)") (auto simp: main_angles_def split: if_splits)
    then obtain a where a: "main_angles (kinematics pr) = Inl UnsupportedKinematics
             \<or> main_angles (kinematics pr) = Inr a"
      by blast
    obtain lp r where lr: "angles_loop p pr ?mx ?my ?E ?nb a = (lp, r)"
      by (cases "angles_loop p pr ?mx ?my ?E ?nb a") auto
    have sp: "sample_props (feedrate_travel p) (z_height p) ?E lp"
      using angles_loop_props [of p ?E pr ?mx ?my ?nb a] lr by simp
    have er: "\<And>e. r = Inl e \<Longrightarrow> \<exists>c. e = AccelerometerNotFound c"
      using angles_loop_error [of p pr ?mx ?my ?E ?nb a] lr by simp
    from assms False a lr sp er show ?thesis
      by (auto simp: run_profile_def Let_def split_def start_events_def end_events_def
          split: if_splits option.splits sum.splits)
  qed
qed

lemma velocity_limits_start:
  "filter is_set_velocity_limit (start_events p pr)
     = [apply_limits (accel p) (toolhead_info pr ''minimum_cruise_ratio'')]"
  by (simp add: start_events_def apply_limits_def split: option.splits)

lemma velocity_limits_end:
  "filter is_set_velocity_limit (end_events p pr oa os)
     = [restore_limits oa (toolhead_info pr ''minimum_cruise_ratio'') os]"
  by (simp add: end_events_def restore_limits_def split: option.splits)

lemma sync_start: "foldl (sync_step (feedrate_travel p)) Initial (start_events p pr) = Idle"
  by (simp add: start_events_def apply_limits_def sync_step_def split: option.splits)

lemma sync_end: "foldl (sync_step ft) Idle (end_events p pr oa os) = Finished"
  by (simp add: end_events_def restore_limits_def sync_step_def split: option.splits)

lemma recordings_start:
  "filter is_start_recording (start_events p pr) = []
   \<and> filter is_stop_recording (start_events p pr) = []"
  by (simp add: start_events_def apply_limits_def split: option.splits)

lemma recordings_end:
  "filter is_start_recording (end_events p pr oa os) = []
   \<and> filter is_stop_recording (end_events p pr oa os) = []"
  by (simp add: end_events_def restore_limits_def split: option.splits)

lemma keep_start:
  "list_all (keeps_Z_E (z_height p) (snd (snd (snd (position pr))))) (start_events p pr)"
  by (simp add: start_events_def apply_limits_def split: option.splits)

lemma keep_end:
  "list_all (keeps_Z_E z e) (end_events p pr oa os)"
  by (simp add: end_events_def restore_limits_def split: option.splits)

lemma run_profile_velocity_limits:
  assumes "run_profile p pr = (tr, res)"
  shows "(res = Inr () \<longrightarrow> (\<exists>oa os. toolhead_info pr ''max_accel'' = Some oa
            \<and> toolhead_info pr ''square_corner_velocity'' = Some os
            \<and> filter is_set_velocity_limit tr =
                [apply_limits (accel p) (toolhead_info pr ''minimum_cruise_ratio''),
                 restore_limits oa (toolhead_info pr ''minimum_cruise_ratio'') os]))
       \<and> (res = Inl (AccelerometerNotFound c) \<longrightarrow> filter is_set_velocity_limit tr =
                [apply_limits (accel p) (toolhead_info pr ''minimum_cruise_ratio'')])"
  using run_profile_shape [OF assms]
  by (auto simp: sample_props_def velocity_limits_start velocity_limits_end)

lemma run_profile_sync:
  assumes "run_profile p pr = (tr, res)"
  shows "accepting (sync_run (feedrate_travel p) tr)
       \<and> (res = Inr () \<longleftrightarrow> sync_run (feedrate_travel p) tr = Finished)
       \<and> length (filter is_start_recording tr) = length (filter is_stop_recording tr)"
  using run_profile_shape [OF assms]
  by (auto simp: sample_props_def sync_start sync_end recordings_start recordings_end
      sync_run_def accepting_def)

lemma run_profile_keeps:
  assumes "run_profile p pr = (tr, res)"
  shows "list_all (keeps_Z_E (z_height p) (snd (snd (snd (position pr))))) tr"
  using run_profile_shape [OF assms]
  by (auto simp: sample_props_def keep_start keep_end)

subsection \<open>The recordings of a completed sweep\<close>

lemma recorded_append: "recorded (xs @ ys) = recorded xs @ recorded ys"
  by (induction xs rule: recorded.induct) simp_all

lemma recorded_pairs: "recorded (concat (replicate k [Move a s, Move b t])) = []"
  by (induction k) simp_all

lemma recorded_sample:
  "recorded (speed_sample p mid_x mid_y E c a i) = [(a, curr_speed (speed_increment p) i)]"
  by (simp add: speed_sample_def Let_def split_def recorded_append recorded_pairs)

lemma recorded_samples:
  "recorded (concat (map (speed_sample p mid_x mid_y E c a) is))
     = map (\<lambda>i. (a, curr_speed (speed_increment p) i)) is"
  by (induction "is") (simp_all add: recorded_append recorded_sample)

lemma recorded_loop:
  "snd (angles_loop p pr mid_x mid_y E nb angles) = Inr u \<Longrightarrow>
   recorded (fst (angles_loop p pr mid_x mid_y E nb angles))
     = concat (map (\<lambda>a. map (\<lambda>i. (a, curr_speed (speed_increment p) i)) [0..<nat nb]) angles)"
  by (induction angles)
    (auto simp: Let_def split_def recorded_append recorded_samples
      split: option.splits if_splits)

lemma recorded_start: "recorded (start_events p pr) = []"
  by (simp add: start_events_def apply_limits_def split: option.splits)

lemma recorded_end: "recorded (end_events p pr oa os) = []"
  by (simp add: end_events_def restore_limits_def split: option.splits)

lemma run_profile_completed:
  assumes "run_profile p pr = (tr, Inr u)"
  shows "\<exists>old_accel old_sqv angles.
            toolhead_info pr ''max_accel'' = Some old_accel
          \<and> toolhead_info pr ''square_corner_velocity'' = Some old_sqv
          \<and> main_angles (kinematics pr) = Inr angles
          \<and> snd (angles_loop p pr
                   ((fst (axis_minimum pr) + fst (axis_maximum pr)) / 2)
                   ((snd (axis_minimum pr) + snd (axis_maximum pr)) / 2)
                   (snd (snd (snd (position pr))))
                   (nb_speed_samples (max_speed p) (speed_increment p)) angles) = Inr ()
          \<and> tr = start_events p pr
                 @ fst (angles_loop p pr
                   ((fst (axis_minimum pr) + fst (axis_maximum pr)) / 2)
                   ((snd (axis_minimum pr) + snd (axis_maximum pr)) / 2)
                   (snd (snd (snd (position pr))))
                   (nb_speed_samples (max_speed p) (speed_increment p)) angles)
                 @ end_events p pr old_accel old_sqv"
  using assms
  by (auto simp: run_profile_def Let_def split_def start_events_def end_events_def
      split: if_splits option.splits sum.splits prod.splits)

lemma run_profile_recorded:
  assumes "run_profile p pr = (tr, Inr u)" and "main_angles (kinematics pr) = Inr angles"
  shows "recorded tr = concat (map (\<lambda>a. map (Pair a)
           (speed_sequence (max_speed p) (speed_increment p))) angles)"
  using run_profile_completed [OF assms(1)] assms(2)
  by (auto simp: recorded_append recorded_start recorded_end recorded_loop
      speed_sequence_def comp_def)

subsection \<open>The concrete inputs evaluated\<close>

lemma example_read: "read_params example_gcmd = Inr example_params"
  by (simp add: read_params_def example_gcmd_def example_params_def get_float_def get_int_def)

lemma too_fast_read: "read_params too_fast_gcmd = Inr too_fast_params"
  by (simp add: read_params_def too_fast_gcmd_def too_fast_params_def get_float_def get_int_def)

lemma example_nb: "nb_speed_samples 10 8 = 2"
  by (simp add: nb_speed_samples_def py_int_def MIN_SPEED_def fl_numeral fl_one)

lemma example_speeds: "curr_speed 8 0 = 2 \<and> curr_speed 8 (Suc 0) = 10"
  by (simp add: curr_speed_def MIN_SPEED_def fl_numeral fl_one fl_zero)

lemma example_completes: "snd (run_profile example_params example_printer) = Inr ()"
  by (simp add: run_profile_def example_params_def example_printer_def main_angles_def
      example_nb Let_def split_def)

lemma old_firmware_completes: "snd (run_profile example_params old_firmware_printer) = Inr ()"
  by (simp add: run_profile_def example_params_def example_printer_def old_firmware_printer_def main_angles_def
      example_nb Let_def split_def)

lemma no_accelerometer_aborts:
  "run_profile example_params no_accelerometer_printer =
     ([SetVelocityLimit 3000 (Some 0) 5, Move (10, 10, 20, 0) 12, Move (85, 85, 20, 0) 120,
       Dwell 0.5],
      Inl (AccelerometerNotFound None))"
  by (simp add: run_profile_def example_params_def example_printer_def
      no_accelerometer_printer_def main_angles_def example_nb Let_def split_def
      apply_limits_def angle_to_axis_def)

lemma delta_fails: "run_profile example_params delta_printer = ([], Inl UnsupportedKinematics)"
  by (simp add: run_profile_def example_params_def example_printer_def delta_printer_def
      main_angles_def)

lemma too_fast_fails: "run_profile too_fast_params example_printer = ([], Inl MovementTooSmall)"
  by (simp add: run_profile_def too_fast_params_def)

lemma example_sample:
  "i < 2 \<Longrightarrow> speed_sample example_params 100 100 0 ''adxl345'' a i =
     [Move (100 - dX 100 (radians a) (segment_length_multiplier (curr_speed 8 i)),
            100 - dY 100 (radians a) (segment_length_multiplier (curr_speed 8 i)), 20, 0) 120,
      StartRecording ''adxl345'' a (curr_speed 8 i),
      Move (100 + dX 100 (radians a) (segment_length_multiplier (curr_speed 8 i)),
            100 + dY 100 (radians a) (segment_length_multiplier (curr_speed 8 i)), 20, 0)
        (curr_speed 8 i),
      Move (100 - dX 100 (radians a) (segment_length_multiplier (curr_speed 8 i)),
            100 - dY 100 (radians a) (segment_length_multiplier (curr_speed 8 i)), 20, 0)
        (curr_speed 8 i),
      StopRecording ''adxl345'', Dwell 0.3, WaitMoves]"
proof -
  assume "i < 2"
  then have "i = 0 \<or> i = Suc 0" by auto
  then have "movements (curr_speed 8 i) = 1"
    using example_speeds by (auto simp: movements_def)
  then show ?thesis
    by (simp add: speed_sample_def example_params_def Let_def endpoint_minus_def
        endpoint_plus_def)
qed

lemma example_trace:
  "fst (run_profile example_params example_printer) =
     [SetVelocityLimit 3000 (Some 0) 5, Move (10, 10, 20, 0) 12, Move (85, 85, 20, 0) 120,
      Dwell 0.5]
     @ speed_sample example_params 100 100 0 ''adxl345'' 45 0
     @ speed_sample example_params 100 100 0 ''adxl345'' 45 1
     @ speed_sample example_params 100 100 0 ''adxl345'' 135 0
     @ speed_sample example_params 100 100 0 ''adxl345'' 135 1
     @ [SetVelocityLimit 1500 (Some (1 / 2)) 8, WaitMoves, Configure ''corexy'' 3000, Run,
        WaitForCompletion]"
proof -
  have u: "[0..<2] = [0, Suc 0]"
    by (simp add: numeral_2_eq_2)
  have "accel_chip example_params = None" "speed_increment example_params = 8"
    "max_speed example_params = 10" "z_height example_params = 20"
    "feedrate_travel example_params = 120" "accel example_params = 3000"
    "size_param example_params = 100"
    by (simp_all add: example_params_def)
  then show ?thesis
    by (simp add: run_profile_def example_printer_def main_angles_def
      example_nb u Let_def split_def apply_limits_def restore_limits_def angle_to_axis_def)
qed

subsection \<open>The rounding example evaluated\<close>

lemma rounding_read: "read_params rounding_gcmd = Inr rounding_params"
  by (simp add: read_params_def rounding_gcmd_def rounding_params_def get_float_def get_int_def)

lemma rounding_sub:
  "fl (4520488125973135 / 281474976710656 - 2) = 3957538172551823 / 281474976710656"
  by (simp add: fl_eval [of 3] round_even_def power_int_minus)

lemma rounding_quot:
  "fl (3957538172551823 / 281474976710656 / (7915076345103647 / 1125899906842624))
     = 9007199254740991 / 4503599627370496"
  by (simp add: fl_eval [of 0] round_even_def power_int_minus)

lemma rounding_succ: "fl (9007199254740991 / 4503599627370496 + 1) = 3"
  by (simp add: fl_eval [of 1] round_even_def power_int_minus)

lemma rounding_nb:
  "nb_speed_samples (4520488125973135 / 281474976710656) (7915076345103647 / 1125899906842624) = 3"
proof -
  have "nb_speed_samples (4520488125973135 / 281474976710656)
          (7915076345103647 / 1125899906842624) = py_int 3"
    by (simp only: nb_speed_samples_def MIN_SPEED_def rounding_sub rounding_quot rounding_succ)
  then show ?thesis by (simp add: py_int_def)
qed

lemma rounding_prod:
  "fl (2 * (7915076345103647 / 1125899906842624)) = 7915076345103647 / 562949953421312"
  by (simp add: fl_eval [of 3] round_even_def power_int_minus)

lemma rounding_sum:
  "fl (2 + 7915076345103647 / 562949953421312) = 282530507873321 / 17592186044416"
  by (simp add: fl_eval [of 4] round_even_def power_int_minus)

lemma rounding_last:
  "curr_speed (7915076345103647 / 1125899906842624) 2 = 282530507873321 / 17592186044416"
proof -
  have "fl (real 2) = 2" by (simp add: fl_numeral)
  then show ?thesis
    by (simp only: curr_speed_def MIN_SPEED_def rounding_prod rounding_sum)
qed

lemma rounding_exact_floor:
  "\<lfloor>(4520488125973135 / 281474976710656 - 2) / (7915076345103647 / 1125899906842624) :: real\<rfloor> = 1"
  by simp

section \<open>The claims\<close>

subsection \<open>C1: restoring the velocity limits\<close>

text \<open>
  C1, as the code has it. The velocity limits are written by the command exactly twice
  when it completes: the test limits first, the previous acceleration, square corner
  velocity and (if present) minimum cruise ratio last. When the command aborts because an
  accelerometer is not found, after the test limits have been applied, the test limits
  are the only velocity limits written: the previous values are not restored.
\<close>

theorem restore_only_on_completion:
  assumes "read_params g = Inr p"
  shows "(snd (create_vibrations_profile g pr) = Inr () \<longrightarrow>
            (\<exists>old_accel old_sqv.
               toolhead_info pr ''max_accel'' = Some old_accel
             \<and> toolhead_info pr ''square_corner_velocity'' = Some old_sqv
             \<and> filter is_set_velocity_limit (fst (create_vibrations_profile g pr)) =
                 [apply_limits (accel p) (toolhead_info pr ''minimum_cruise_ratio''),
                  restore_limits old_accel (toolhead_info pr ''minimum_cruise_ratio'') old_sqv]))
       \<and> (snd (create_vibrations_profile g pr) = Inl (AccelerometerNotFound c) \<longrightarrow>
            filter is_set_velocity_limit (fst (create_vibrations_profile g pr)) =
              [apply_limits (accel p) (toolhead_info pr ''minimum_cruise_ratio'')])"
  using run_profile_velocity_limits [of p pr "fst (run_profile p pr)" "snd (run_profile p pr)" c]
  by (simp add: profile_of_params [OF assms])

theorem restore_only_on_completion_witness:
  "read_params example_gcmd = Inr example_params
   \<and> snd (create_vibrations_profile example_gcmd example_printer) = Inr ()
   \<and> filter is_set_velocity_limit (fst (create_vibrations_profile example_gcmd example_printer))
       = [SetVelocityLimit 3000 (Some 0) 5, SetVelocityLimit 1500 (Some (1 / 2)) 8]
   \<and> snd (create_vibrations_profile example_gcmd no_accelerometer_printer)
       = Inl (AccelerometerNotFound None)
   \<and> filter is_set_velocity_limit
         (fst (create_vibrations_profile example_gcmd no_accelerometer_printer))
       = [SetVelocityLimit 3000 (Some 0) 5]"
proof -
  have 1: "snd (create_vibrations_profile example_gcmd example_printer) = Inr ()"
    by (simp add: profile_of_params [OF example_read] example_completes)
  have 2: "snd (create_vibrations_profile example_gcmd no_accelerometer_printer)
       = Inl (AccelerometerNotFound None)"
    by (simp add: profile_of_params [OF example_read] no_accelerometer_aborts)
  from restore_only_on_completion [OF example_read, of example_printer] 1
    restore_only_on_completion [OF example_read, of no_accelerometer_printer None] 2
  show ?thesis
    by (simp add: example_read example_printer_def no_accelerometer_printer_def
        example_params_def apply_limits_def restore_limits_def)
qed

text \<open>
  C1, as stated, fails: with no accelerometer found for the first angle the command
  aborts after it has applied the test limits, and the script that restores the previous
  limits (acceleration 1500, minimum cruise ratio 1/2, square corner velocity 8) is
  issued zero times, not once.
\<close>

theorem restore_skipped_on_abort:
  "snd (create_vibrations_profile example_gcmd no_accelerometer_printer)
       = Inl (AccelerometerNotFound None)
   \<and> hd (fst (create_vibrations_profile example_gcmd no_accelerometer_printer))
       = apply_limits 3000 (Some (1 / 2))
   \<and> toolhead_info no_accelerometer_printer ''max_accel'' = Some 1500
   \<and> toolhead_info no_accelerometer_printer ''square_corner_velocity'' = Some 8
   \<and> toolhead_info no_accelerometer_printer ''minimum_cruise_ratio'' = Some (1 / 2)
   \<and> count_list (fst (create_vibrations_profile example_gcmd no_accelerometer_printer))
        (restore_limits 1500 (Some (1 / 2)) 8) = 0"
proof -
  have "create_vibrations_profile example_gcmd no_accelerometer_printer =
     ([SetVelocityLimit 3000 (Some 0) 5, Move (10, 10, 20, 0) 12, Move (85, 85, 20, 0) 120,
       Dwell 0.5],
      Inl (AccelerometerNotFound None))"
    by (simp only: profile_of_params [OF example_read] no_accelerometer_aborts)
  moreover have "toolhead_info no_accelerometer_printer ''max_accel'' = Some 1500
   \<and> toolhead_info no_accelerometer_printer ''square_corner_velocity'' = Some 8
   \<and> toolhead_info no_accelerometer_printer ''minimum_cruise_ratio'' = Some (1 / 2)"
    by (simp add: no_accelerometer_printer_def example_printer_def)
  ultimately show ?thesis
    by (simp add: apply_limits_def restore_limits_def)
qed

subsection \<open>C2: the speed samples\<close>

text \<open>
  C2, as the code has it. For a maximum speed of at least \<open>MIN_SPEED\<close> (the command
  accepts none below 10) and a positive increment, the number of speed samples is the
  integer part of \<open>(max_speed - 2) / increment + 1\<close> evaluated in double precision, each
  of the three operations rounded; it is at least 1, and it is
  \<open>floor ((max_speed - 2) / increment) + 1\<close> whenever the three operations are exact.
  The speed of sample \<open>i\<close> is \<open>2 + i increment\<close> evaluated in double precision; the
  sequence starts at 2 and never decreases; whenever the conversion, product and sum are
  exact for every sample, the speeds are 2, 2 + increment, 2 + 2 increment and so on, with
  constant step, strictly increasing, and the last one is at most the maximum speed if
  the count is exact too. A completed sweep records, for each angle in turn, exactly this
  sequence of speeds.
\<close>

theorem speed_samples_in_double_precision:
  assumes "MIN_SPEED \<le> ms" and "0 < incr"
  shows "nb_speed_samples ms incr = \<lfloor>fl (fl (fl (ms - 2) / incr) + 1)\<rfloor>
    \<and> 1 \<le> nb_speed_samples ms incr
    \<and> (fl (ms - 2) = ms - 2 \<and> fl ((ms - 2) / incr) = (ms - 2) / incr
        \<and> fl ((ms - 2) / incr + 1) = (ms - 2) / incr + 1
        \<longrightarrow> nb_speed_samples ms incr = \<lfloor>(ms - 2) / incr\<rfloor> + 1)
    \<and> length (speed_sequence ms incr) = nat (nb_speed_samples ms incr)
    \<and> speed_sequence ms incr \<noteq> []
    \<and> hd (speed_sequence ms incr) = 2
    \<and> (\<forall>i < length (speed_sequence ms incr).
          speed_sequence ms incr ! i = fl (2 + fl (fl (real i) * incr)))
    \<and> sorted (speed_sequence ms incr)
    \<and> ((\<forall>i < length (speed_sequence ms incr).
           fl (real i) = real i \<and> fl (real i * incr) = real i * incr
           \<and> fl (2 + real i * incr) = 2 + real i * incr)
        \<longrightarrow> (\<forall>i < length (speed_sequence ms incr).
               speed_sequence ms incr ! i = 2 + real i * incr)
            \<and> (\<forall>i. Suc i < length (speed_sequence ms incr) \<longrightarrow>
                 speed_sequence ms incr ! Suc i - speed_sequence ms incr ! i = incr)
            \<and> sorted_wrt (<) (speed_sequence ms incr)
            \<and> (nb_speed_samples ms incr = \<lfloor>(ms - 2) / incr\<rfloor> + 1
                 \<longrightarrow> last (speed_sequence ms incr) \<le> ms))
    \<and> (read_params g = Inr p \<and> max_speed p = ms \<and> speed_increment p = incr
        \<and> create_vibrations_profile g pr = (tr, Inr ())
        \<and> main_angles (kinematics pr) = Inr angles
        \<longrightarrow> recorded tr = concat (map (\<lambda>a. map (Pair a) (speed_sequence ms incr)) angles))"
proof -
  let ?n = "nat (nb_speed_samples ms incr)"
  let ?seq = "speed_sequence ms incr"
  note nb = nb_speed_samples_floor [OF assms]
  have n: "0 < ?n"
    using nb(2) by simp
  have len: "length ?seq = ?n"
    by (simp add: speed_sequence_def)
  have nth: "?seq ! i = fl (2 + fl (fl (real i) * incr))" if "i < ?n" for i
    using that by (simp add: speed_sequence_def curr_speed_def MIN_SPEED_def)
  have ne: "?seq \<noteq> []"
    using n len by auto
  have hd: "hd ?seq = 2"
    using n ne by (simp add: hd_conv_nth speed_sequence_def curr_speed_zero)
  have mono: "sorted ?seq"
    using assms(2)
    by (simp add: sorted_iff_nth_mono_less speed_sequence_def curr_speed_mono)
  have exact_nb: "nb_speed_samples ms incr = \<lfloor>(ms - 2) / incr\<rfloor> + 1"
    if "fl (ms - 2) = ms - 2" "fl ((ms - 2) / incr) = (ms - 2) / incr"
      "fl ((ms - 2) / incr + 1) = (ms - 2) / incr + 1"
    using that by (simp add: nb(1))
  have exact: "(\<forall>i < length ?seq. ?seq ! i = 2 + real i * incr)
            \<and> (\<forall>i. Suc i < length ?seq \<longrightarrow> ?seq ! Suc i - ?seq ! i = incr)
            \<and> sorted_wrt (<) ?seq
            \<and> (nb_speed_samples ms incr = \<lfloor>(ms - 2) / incr\<rfloor> + 1 \<longrightarrow> last ?seq \<le> ms)"
    if ex: "\<forall>i < length ?seq. fl (real i) = real i \<and> fl (real i * incr) = real i * incr
           \<and> fl (2 + real i * incr) = 2 + real i * incr"
  proof -
    have nth': "?seq ! i = 2 + real i * incr" if "i < ?n" for i
      using that ex by (simp add: nth len)
    have step: "?seq ! Suc i - ?seq ! i = incr" if "Suc i < ?n" for i
      using that by (simp add: nth' algebra_simps)
    have strict: "sorted_wrt (<) ?seq"
      using assms(2) by (simp add: sorted_wrt_iff_nth_less len nth')
    have lst: "last ?seq \<le> ms" if fl: "nb_speed_samples ms incr = \<lfloor>(ms - 2) / incr\<rfloor> + 1"
    proof -
      have "last ?seq = 2 + real (?n - 1) * incr"
        using n ne len nth' [of "?n - 1"] by (simp add: last_conv_nth)
      moreover have "0 \<le> \<lfloor>(ms - 2) / incr\<rfloor>"
        using assms by (simp add: MIN_SPEED_def)
      then have "?n = Suc (nat \<lfloor>(ms - 2) / incr\<rfloor>)"
        by (simp only: fl Suc_nat_eq_nat_zadd1)
      then have "real (?n - 1) = real_of_int \<lfloor>(ms - 2) / incr\<rfloor>"
        using \<open>0 \<le> \<lfloor>(ms - 2) / incr\<rfloor>\<close> by simp
      then have "real (?n - 1) \<le> (ms - 2) / incr"
        by simp
      then have "real (?n - 1) * incr \<le> ms - 2"
        using assms(2) by (simp add: pos_le_divide_eq)
      ultimately show ?thesis by simp
    qed
    from nth' step strict lst show ?thesis by (simp add: len)
  qed
  have sweep: "recorded tr = concat (map (\<lambda>a. map (Pair a) ?seq) angles)"
    if "read_params g = Inr p" "max_speed p = ms" "speed_increment p = incr"
      "create_vibrations_profile g pr = (tr, Inr ())"
      "main_angles (kinematics pr) = Inr angles"
    using run_profile_recorded [of p pr tr "()" angles] that
    by (simp add: profile_of_params)
  from nb exact_nb len ne hd nth mono exact sweep show ?thesis
    by (simp add: len)
qed

theorem speed_samples_in_double_precision_witness:
  "MIN_SPEED \<le> 10 \<and> (0::real) < 8
   \<and> fl (10 - 2) = 10 - 2 \<and> fl ((10 - 2) / 8) = (10 - 2) / 8
   \<and> fl ((10 - 2) / 8 + 1) = (10 - 2) / 8 + 1
   \<and> nb_speed_samples 10 8 = \<lfloor>(10 - 2) / 8 :: real\<rfloor> + 1
   \<and> speed_sequence 10 8 = [2, 10] \<and> sorted_wrt (<) (speed_sequence 10 8)
   \<and> last (speed_sequence 10 8) \<le> 10
   \<and> read_params example_gcmd = Inr example_params
   \<and> max_speed example_params = 10 \<and> speed_increment example_params = 8
   \<and> snd (create_vibrations_profile example_gcmd example_printer) = Inr ()
   \<and> main_angles (kinematics example_printer) = Inr [45, 135]
   \<and> recorded (fst (create_vibrations_profile example_gcmd example_printer))
       = [(45, 2), (45, 10), (135, 2), (135, 10)]"
proof -
  have h: "MIN_SPEED \<le> 10" "(0::real) < 8"
    by (simp_all add: MIN_SPEED_def)
  have e: "fl (10 - 2) = 10 - 2 \<and> fl ((10 - 2) / 8) = (10 - 2) / 8
      \<and> fl ((10 - 2) / 8 + 1) = (10 - 2) / 8 + 1"
    by (simp add: fl_numeral fl_one)
  have s: "speed_sequence 10 8 = [2, 10]"
    using example_speeds by (simp add: speed_sequence_def example_nb numeral_2_eq_2)
  have x: "\<forall>i < length (speed_sequence 10 8).
           fl (real i) = real i \<and> fl (real i * 8) = real i * 8
           \<and> fl (2 + real i * 8) = 2 + real i * 8"
    by (simp add: s numeral_2_eq_2 less_Suc_eq fl_zero fl_one fl_numeral)
  have p: "max_speed example_params = 10 \<and> speed_increment example_params = 8"
    by (simp add: example_params_def)
  have c: "snd (create_vibrations_profile example_gcmd example_printer) = Inr ()"
    by (simp add: profile_of_params [OF example_read] example_completes)
  then have c': "create_vibrations_profile example_gcmd example_printer
      = (fst (create_vibrations_profile example_gcmd example_printer), Inr ())"
    by (simp add: prod_eq_iff)
  have k: "main_angles (kinematics example_printer) = Inr [45, 135]"
    by (simp add: example_printer_def main_angles_def)
  have n: "nb_speed_samples 10 8 = \<lfloor>(10 - 2) / 8 :: real\<rfloor> + 1"
    by (simp add: example_nb)
  from speed_samples_in_double_precision [OF h, of example_gcmd example_params
      example_printer "fst (create_vibrations_profile example_gcmd example_printer)"
      "[45, 135]"] e x n p c' k example_read
  have "sorted_wrt (<) (speed_sequence 10 8) \<and> last (speed_sequence 10 8) \<le> 10
      \<and> recorded (fst (create_vibrations_profile example_gcmd example_printer))
          = concat (map (\<lambda>a. map (Pair a) (speed_sequence 10 8)) [45, 135])"
    by blast
  with h e s p c k n example_read show ?thesis
    by simp
qed

text \<open>
  C2, as stated, fails. With \<^verbatim>\<open>MAX_SPEED=16.06 SPEED_INCREMENT=7.03\<close>, which the
  command accepts, the quotient \<open>(max_speed - 2) / increment\<close> rounds to the double just
  below 2 and the addition of 1 rounds up to 3: three samples are run, where
  \<open>floor ((max_speed - 2) / increment) + 1\<close> is 2, whether the quotient is taken exactly
  or in double precision; and the speed of the last sample, the double just above 16.06,
  is greater than the maximum speed.
\<close>

theorem speed_samples_exceed_formula:
  "read_params rounding_gcmd = Inr rounding_params
   \<and> MIN_SPEED \<le> max_speed rounding_params
   \<and> 0 < speed_increment rounding_params
   \<and> \<not> size_param rounding_params / (max_speed rounding_params / 60) < 0.25
   \<and> nb_speed_samples (max_speed rounding_params) (speed_increment rounding_params) = 3
   \<and> \<lfloor>(max_speed rounding_params - 2) / speed_increment rounding_params\<rfloor> + 1 = 2
   \<and> \<lfloor>fl (fl (max_speed rounding_params - 2) / speed_increment rounding_params)\<rfloor> + 1 = 2
   \<and> last (speed_sequence (max_speed rounding_params) (speed_increment rounding_params))
       = 282530507873321 / 17592186044416
   \<and> max_speed rounding_params
       < last (speed_sequence (max_speed rounding_params) (speed_increment rounding_params))"
proof -
  have m: "max_speed rounding_params = 4520488125973135 / 281474976710656"
    and i: "speed_increment rounding_params = 7915076345103647 / 1125899906842624"
    and z: "size_param rounding_params = 100"
    by (simp_all add: rounding_params_def)
  have 1: "MIN_SPEED \<le> max_speed rounding_params \<and> 0 < speed_increment rounding_params
      \<and> \<not> size_param rounding_params / (max_speed rounding_params / 60) < 0.25"
    by (simp add: m i z MIN_SPEED_def)
  have 2: "\<lfloor>(max_speed rounding_params - 2) / speed_increment rounding_params\<rfloor> + 1 = 2"
    by (simp add: m i)
  have 3: "\<lfloor>fl (fl (max_speed rounding_params - 2) / speed_increment rounding_params)\<rfloor>
      + 1 = 2"
    by (simp only: m i rounding_sub rounding_quot) simp
  have 4: "nb_speed_samples (max_speed rounding_params) (speed_increment rounding_params) = 3"
    by (simp only: m i rounding_nb)
  have 5: "last (speed_sequence (max_speed rounding_params) (speed_increment rounding_params))
      = curr_speed (speed_increment rounding_params) 2"
    by (simp add: speed_sequence_def 4 last_conv_nth numeral_2_eq_2)
  have 6: "curr_speed (speed_increment rounding_params) 2 = 282530507873321 / 17592186044416"
    by (simp only: i rounding_last)
  have 7: "max_speed rounding_params < 282530507873321 / 17592186044416"
    by (simp add: m)
  from rounding_read 1 2 3 4 5 6 7 show ?thesis
    by simp
qed

subsection \<open>C3: the segment length multiplier\<close>

text \<open>
  C3. The multiplier is \<open>1/5 + 4/5 (speed / 100)\<close> below 100 and 1 from 100 on; it is
  strictly increasing below 100; on every speed sample it lies in the interval from 0
  (excluded) to 1 (included); both branches give 1 at speed 100, where the function is
  continuous.
\<close>

theorem multiplier_ramp:
  "segment_length_multiplier s = (if s < 100 then 1 / 5 + (4 / 5) * (s / 100) else 1)
   \<and> (s1 < s2 \<and> s2 < 100 \<longrightarrow> segment_length_multiplier s1 < segment_length_multiplier s2)
   \<and> (0 \<le> incr \<longrightarrow> 0 < segment_length_multiplier (curr_speed incr i)
                  \<and> segment_length_multiplier (curr_speed incr i) \<le> 1)
   \<and> 1 / 5 + (4 / 5) * (100 / 100) = (1::real)
   \<and> segment_length_multiplier 100 = 1
   \<and> isCont segment_length_multiplier 100"
proof -
  have a: "segment_length_multiplier s = (if s < 100 then 1 / 5 + (4 / 5) * (s / 100) else 1)"
    by (simp add: segment_length_multiplier_def)
  have b: "s1 < s2 \<and> s2 < 100 \<longrightarrow> segment_length_multiplier s1 < segment_length_multiplier s2"
    by (simp add: segment_length_multiplier_def)
  have c: "0 \<le> incr \<longrightarrow> 0 < segment_length_multiplier (curr_speed incr i)
                  \<and> segment_length_multiplier (curr_speed incr i) \<le> 1"
  proof
    assume "0 \<le> incr"
    then have "0 \<le> curr_speed incr i"
      using curr_speed_ge_min [of incr i] by (simp add: MIN_SPEED_def)
    then show "0 < segment_length_multiplier (curr_speed incr i)
                  \<and> segment_length_multiplier (curr_speed incr i) \<le> 1"
      by (rule multiplier_range)
  qed
  have d: "segment_length_multiplier 100 = 1"
    by (simp add: segment_length_multiplier_def)
  from a b c d multiplier_continuous show ?thesis by simp
qed

theorem multiplier_ramp_witness:
  "segment_length_multiplier 50 = 3 / 5
   \<and> (50::real) < 98 \<and> (98::real) < 100
   \<and> segment_length_multiplier 50 < segment_length_multiplier 98
   \<and> (0::real) \<le> 8 \<and> 0 < segment_length_multiplier (curr_speed 8 1)
   \<and> segment_length_multiplier (curr_speed 8 1) \<le> 1"
  using multiplier_ramp [of 50 50 98 8 1] by simp

subsection \<open>C4: the number of back and forth movements\<close>

text \<open>
  C4. One pair of movements below 150, two from 150 to below 250, three from 250 on; the
  boundary 150 gives 2 and the boundary 250 gives 3; the count never decreases as the
  speed grows.
\<close>

theorem movements_bands:
  "movements s = (if s < 150 then 1 else if s < 250 then 2 else 3)
   \<and> movements 150 = 2 \<and> movements 250 = 3
   \<and> (s1 \<le> s2 \<longrightarrow> movements s1 \<le> movements s2)"
  by (auto simp: movements_def)

theorem movements_bands_witness:
  "(149::real) \<le> 250 \<and> movements 149 \<le> movements 250 \<and> movements 149 = 1"
  using movements_bands [of 149 149 250] by simp

subsection \<open>C5: the two endpoints\<close>

text \<open>
  C5. The two endpoints of a segment are the centre plus and minus the displacement
  \<open>(size / 2 cos angle factor, size / 2 sin angle factor)\<close>, so their sum is twice the
  centre, coordinate by coordinate.
\<close>

theorem endpoints_reflect:
  "fst (endpoint_plus mid_x mid_y sz angle mult) + fst (endpoint_minus mid_x mid_y sz angle mult)
     = 2 * mid_x
   \<and> snd (endpoint_plus mid_x mid_y sz angle mult) + snd (endpoint_minus mid_x mid_y sz angle mult)
     = 2 * mid_y
   \<and> endpoint_plus mid_x mid_y sz angle mult
     = (mid_x + sz / 2 * cos angle * mult, mid_y + sz / 2 * sin angle * mult)
   \<and> endpoint_minus mid_x mid_y sz angle mult
     = (mid_x - sz / 2 * cos angle * mult, mid_y - sz / 2 * sin angle * mult)"
  by (simp add: endpoint_plus_def endpoint_minus_def dX_def dY_def)

theorem endpoints_reflect_witness:
  "endpoint_plus 100 100 100 0 1 = (150, 100) \<and> endpoint_minus 100 100 100 0 1 = (50, 100)
   \<and> fst (endpoint_plus 100 100 100 0 1) + fst (endpoint_minus 100 100 100 0 1) = 2 * 100"
  using endpoints_reflect [of 100 100 100 0 1] by simp

subsection \<open>C6: recordings and motion\<close>

text \<open>
  C6. Whatever the command is given and however it ends, its events are accepted by the
  monitor \<open>sync_step\<close> for its travel feedrate: recordings are started and stopped in
  turn, beginning with a start, never two open at once; a recording is started right
  after the approach move of its sample, before any move at the test speed; between a
  start and its stop lie exactly the \<open>2 * movements speed\<close> moves of that sample at its
  test speed, and no move is issued outside an open recording other than the approach
  move of a sample and the two moves before the first sample; each stop is followed at
  once by the dwell and the drain; the monitor ends in \<open>Finished\<close> exactly when the
  command completes; and there are as many stops as starts.
\<close>

theorem recordings_bracket_test_moves:
  "(\<forall>p. read_params g = Inr p \<longrightarrow>
        accepting (sync_run (feedrate_travel p) (fst (create_vibrations_profile g pr)))
      \<and> (snd (create_vibrations_profile g pr) = Inr ()
           \<longleftrightarrow> sync_run (feedrate_travel p) (fst (create_vibrations_profile g pr)) = Finished))
   \<and> (\<forall>e. read_params g = Inl e \<longrightarrow> fst (create_vibrations_profile g pr) = [])
   \<and> length (filter is_start_recording (fst (create_vibrations_profile g pr)))
     = length (filter is_stop_recording (fst (create_vibrations_profile g pr)))"
proof (cases "read_params g")
  case (Inl e)
  then show ?thesis
    by (simp add: profile_of_bad_params)
next
  case (Inr p)
  then show ?thesis
    using run_profile_sync [of p pr "fst (run_profile p pr)" "snd (run_profile p pr)"]
    by (simp add: profile_of_params)
qed

theorem recordings_bracket_test_moves_witness:
  "read_params example_gcmd = Inr example_params
   \<and> feedrate_travel example_params = 120
   \<and> snd (create_vibrations_profile example_gcmd example_printer) = Inr ()
   \<and> sync_run 120 (fst (create_vibrations_profile example_gcmd example_printer)) = Finished
   \<and> length (filter is_start_recording
        (fst (create_vibrations_profile example_gcmd example_printer))) = 4
   \<and> length (filter is_stop_recording
        (fst (create_vibrations_profile example_gcmd example_printer))) = 4
   \<and> read_params bad_size_gcmd = Inl (ParamBelowMinimum ''SIZE'')
   \<and> fst (create_vibrations_profile bad_size_gcmd example_printer) = []"
proof -
  have 1: "length (filter is_start_recording
        (fst (create_vibrations_profile example_gcmd example_printer))) = 4"
    by (simp add: profile_of_params [OF example_read] example_trace example_sample)
  have 2: "snd (create_vibrations_profile example_gcmd example_printer) = Inr ()"
    by (simp add: profile_of_params [OF example_read] example_completes)
  have 3: "feedrate_travel example_params = 120"
    by (simp add: example_params_def)
  have 4: "read_params bad_size_gcmd = Inl (ParamBelowMinimum ''SIZE'')"
    by (simp add: read_params_def bad_size_gcmd_def get_float_def)
  from recordings_bracket_test_moves [of example_gcmd example_printer]
    recordings_bracket_test_moves [of bad_size_gcmd example_printer] 1 2 3 4 example_read
  show ?thesis
    by simp
qed

subsection \<open>C7: the movement is too small for the speed\<close>

text \<open>
  C7. Once the parameters are read, the command fails with the error of line 35 if and
  only if \<open>size / (max_speed / 60) < 0.25\<close>, and then it has issued no event at all.
\<close>

theorem too_small_iff:
  assumes "read_params g = Inr p"
  shows "(snd (create_vibrations_profile g pr) = Inl MovementTooSmall
            \<longleftrightarrow> size_param p / (max_speed p / 60) < 0.25)
       \<and> (snd (create_vibrations_profile g pr) = Inl MovementTooSmall
            \<longrightarrow> fst (create_vibrations_profile g pr) = [])"
proof -
  have "max_speed p / 60 \<noteq> 0"
    using read_params_range [OF assms] by simp
  then show ?thesis
    using run_profile_shape [of p pr "fst (run_profile p pr)" "snd (run_profile p pr)"]
    by (auto simp: profile_of_params [OF assms])
qed

theorem too_small_iff_witness:
  "read_params too_fast_gcmd = Inr too_fast_params
   \<and> size_param too_fast_params / (max_speed too_fast_params / 60) < 0.25
   \<and> create_vibrations_profile too_fast_gcmd example_printer = ([], Inl MovementTooSmall)
   \<and> read_params example_gcmd = Inr example_params
   \<and> \<not> size_param example_params / (max_speed example_params / 60) < 0.25
   \<and> snd (create_vibrations_profile example_gcmd example_printer) \<noteq> Inl MovementTooSmall"
proof -
  have 1: "size_param too_fast_params / (max_speed too_fast_params / 60) < 0.25"
    by (simp add: too_fast_params_def)
  have 2: "\<not> size_param example_params / (max_speed example_params / 60) < 0.25"
    by (simp add: example_params_def)
  from too_small_iff [OF too_fast_read, of example_printer] 1
    too_small_iff [OF example_read, of example_printer] 2
  show ?thesis
    by (simp add: too_fast_read example_read prod_eq_iff)
qed

subsection \<open>C8: the principal angles\<close>

text \<open>
  C8. The angles are 0 and 90 for cartesian and corexz kinematics, 45 and 135, in that
  order, for corexy; for any other kinematics the command fails without having issued
  any event, with the unsupported kinematics error when the earlier checks (parameters,
  movement size, input shaper) pass; a completed sweep records the angles of the list in
  order, each with every speed sample.
\<close>

theorem principal_angles:
  "main_angles ''cartesian'' = Inr [0, 90]
   \<and> main_angles ''corexz'' = Inr [0, 90]
   \<and> main_angles ''corexy'' = Inr [45, 135]
   \<and> (kin \<noteq> ''cartesian'' \<and> kin \<noteq> ''corexz'' \<and> kin \<noteq> ''corexy''
        \<longrightarrow> main_angles kin = Inl UnsupportedKinematics)
   \<and> (main_angles (kinematics pr) = Inl UnsupportedKinematics
        \<longrightarrow> (\<exists>e. create_vibrations_profile g pr = ([], Inl e)))
   \<and> (main_angles (kinematics pr) = Inl UnsupportedKinematics
        \<and> read_params g = Inr p \<and> \<not> size_param p / (max_speed p / 60) < 0.25
        \<and> input_shaper pr
        \<longrightarrow> create_vibrations_profile g pr = ([], Inl UnsupportedKinematics))
   \<and> (read_params g = Inr p \<and> create_vibrations_profile g pr = (tr, Inr ())
        \<longrightarrow> (\<exists>angles. main_angles (kinematics pr) = Inr angles
              \<and> map fst (recorded tr) =
                  concat (map (replicate (length
                    (speed_sequence (max_speed p) (speed_increment p)))) angles)))"
proof -
  have a: "main_angles ''cartesian'' = Inr [0, 90] \<and> main_angles ''corexz'' = Inr [0, 90]
         \<and> main_angles ''corexy'' = Inr [45, 135]"
    by (simp add: main_angles_def)
  have b: "kin \<noteq> ''cartesian'' \<and> kin \<noteq> ''corexz'' \<and> kin \<noteq> ''corexy''
        \<longrightarrow> main_angles kin = Inl UnsupportedKinematics"
    by (simp add: main_angles_def)
  have c: "\<exists>e. create_vibrations_profile g pr = ([], Inl e)"
    if k: "main_angles (kinematics pr) = Inl UnsupportedKinematics"
  proof (cases "read_params g")
    case (Inl e)
    then show ?thesis by (simp add: profile_of_bad_params)
  next
    case (Inr q)
    show ?thesis
      using run_profile_shape [of q pr "fst (run_profile q pr)" "snd (run_profile q pr)"] k
      by (auto simp: profile_of_params [OF Inr] prod_eq_iff)
  qed
  have d: "create_vibrations_profile g pr = ([], Inl UnsupportedKinematics)"
    if k: "main_angles (kinematics pr) = Inl UnsupportedKinematics"
      and r: "read_params g = Inr p" and s: "\<not> size_param p / (max_speed p / 60) < 0.25"
      and i: "input_shaper pr"
  proof -
    have "max_speed p / 60 \<noteq> 0"
      using read_params_range [OF r] by simp
    then show ?thesis
      using k s i by (simp add: profile_of_params [OF r] run_profile_def)
  qed
  have e: "\<exists>angles. main_angles (kinematics pr) = Inr angles
              \<and> map fst (recorded tr) =
                  concat (map (replicate (length
                    (speed_sequence (max_speed p) (speed_increment p)))) angles)"
    if r: "read_params g = Inr p" and c: "create_vibrations_profile g pr = (tr, Inr ())"
  proof -
    from r c have rp: "run_profile p pr = (tr, Inr ())"
      by (simp add: profile_of_params)
    from run_profile_completed [OF rp] obtain angles
      where k: "main_angles (kinematics pr) = Inr angles"
      by blast
    have "map fst (recorded tr) =
            concat (map (replicate (length
              (speed_sequence (max_speed p) (speed_increment p)))) angles)"
      by (simp add: run_profile_recorded [OF rp k] map_concat comp_def map_replicate_const)
    with k show ?thesis by blast
  qed
  from a b c d e show ?thesis by blast
qed

theorem principal_angles_witness:
  "main_angles (kinematics delta_printer) = Inl UnsupportedKinematics
   \<and> read_params example_gcmd = Inr example_params
   \<and> \<not> size_param example_params / (max_speed example_params / 60) < 0.25
   \<and> input_shaper delta_printer
   \<and> create_vibrations_profile example_gcmd delta_printer = ([], Inl UnsupportedKinematics)
   \<and> snd (create_vibrations_profile example_gcmd example_printer) = Inr ()
   \<and> map fst (recorded (fst (create_vibrations_profile example_gcmd example_printer)))
       = [45, 45, 135, 135]"
proof -
  have 1: "main_angles (kinematics delta_printer) = Inl UnsupportedKinematics"
    by (simp add: delta_printer_def example_printer_def main_angles_def)
  have 2: "\<not> size_param example_params / (max_speed example_params / 60) < 0.25"
    by (simp add: example_params_def)
  have 3: "input_shaper delta_printer"
    by (simp add: delta_printer_def example_printer_def)
  have 4: "snd (create_vibrations_profile example_gcmd example_printer) = Inr ()"
    by (simp add: profile_of_params [OF example_read] example_completes)
  then have 5: "create_vibrations_profile example_gcmd example_printer
      = (fst (create_vibrations_profile example_gcmd example_printer), Inr ())"
    by (simp add: prod_eq_iff)
  have 6: "main_angles (kinematics example_printer) = Inr [45, 135]"
    by (simp add: example_printer_def main_angles_def)
  have 7: "length (speed_sequence (max_speed example_params) (speed_increment example_params))
      = 2"
    by (simp add: speed_sequence_def example_params_def example_nb)
  from principal_angles [of "''delta''" delta_printer example_gcmd example_params
      "fst (create_vibrations_profile example_gcmd example_printer)"]
    1 2 3 example_read
  have "create_vibrations_profile example_gcmd delta_printer = ([], Inl UnsupportedKinematics)"
    by simp
  moreover
  from principal_angles [of "''delta''" example_printer example_gcmd example_params
      "fst (create_vibrations_profile example_gcmd example_printer)"]
    5 6 7 example_read
  have "map fst (recorded (fst (create_vibrations_profile example_gcmd example_printer)))
       = [45, 45, 135, 135]"
    by (simp add: numeral_2_eq_2)
  ultimately show ?thesis
    using 1 2 3 4 example_read by simp
qed

subsection \<open>C9: the minimum cruise ratio\<close>

text \<open>
  C9, as the code has it. When the toolhead status has no \<open>minimum_cruise_ratio\<close>, no
  script of the command writes one, however the command ends. The first event of the
  command, if there is any, sets the requested acceleration, the square corner velocity 5
  and, only when the status has a minimum cruise ratio, the ratio 0. When the command
  runs to completion it has written the velocity limits exactly twice, the second time
  with the acceleration, the square corner velocity and the minimum cruise ratio (only
  when present) of the status read at the start.
\<close>

theorem cruise_ratio_conditional:
  assumes "read_params g = Inr p"
  shows "(toolhead_info pr ''minimum_cruise_ratio'' = None \<longrightarrow>
            list_all writes_no_cruise_ratio (fst (create_vibrations_profile g pr)))
       \<and> (fst (create_vibrations_profile g pr) \<noteq> [] \<longrightarrow>
            hd (fst (create_vibrations_profile g pr)) =
              SetVelocityLimit (real_of_int (accel p))
                (map_option (\<lambda>m. 0) (toolhead_info pr ''minimum_cruise_ratio'')) 5)
       \<and> (snd (create_vibrations_profile g pr) = Inr () \<longrightarrow>
            (\<exists>old_accel old_sqv.
               toolhead_info pr ''max_accel'' = Some old_accel
             \<and> toolhead_info pr ''square_corner_velocity'' = Some old_sqv
             \<and> filter is_set_velocity_limit (fst (create_vibrations_profile g pr)) =
                 [SetVelocityLimit (real_of_int (accel p))
                    (map_option (\<lambda>m. 0) (toolhead_info pr ''minimum_cruise_ratio'')) 5,
                  SetVelocityLimit old_accel (toolhead_info pr ''minimum_cruise_ratio'')
                    old_sqv]))"
proof -
  let ?tr = "fst (run_profile p pr)" and ?res = "snd (run_profile p pr)"
  have ap: "apply_limits (accel p) m = SetVelocityLimit (real_of_int (accel p))
                (map_option (\<lambda>m. 0) m) 5" for m
    by (simp add: apply_limits_def split: option.splits)
  have re: "restore_limits a m s = SetVelocityLimit a m s" for a m s
    by (simp add: restore_limits_def split: option.splits)
  have no: "list_all writes_no_cruise_ratio ?tr"
    if "toolhead_info pr ''minimum_cruise_ratio'' = None"
  proof -
    have "list_all writes_no_cruise_ratio xs = list_all writes_no_cruise_ratio (filter is_set_velocity_limit xs)" for xs
    proof (induction xs)
      case Nil
      show ?case by simp
    next
      case (Cons x xs)
      then show ?case by (cases x) simp_all
    qed
    then have "list_all writes_no_cruise_ratio ?tr
      = list_all writes_no_cruise_ratio (filter is_set_velocity_limit ?tr)" .
    also have "\<dots>"
      using run_profile_shape [of p pr ?tr ?res] that
      by (auto simp: sample_props_def velocity_limits_start velocity_limits_end ap re)
    finally show ?thesis .
  qed
  have h: "?tr \<noteq> [] \<longrightarrow> hd ?tr = SetVelocityLimit (real_of_int (accel p))
                (map_option (\<lambda>m. 0) (toolhead_info pr ''minimum_cruise_ratio'')) 5"
    using run_profile_shape [of p pr ?tr ?res]
    by (auto simp: start_events_def ap)
  from no h run_profile_velocity_limits [of p pr ?tr ?res]
  show ?thesis
    by (simp add: profile_of_params [OF assms] ap re)
qed

theorem cruise_ratio_conditional_witness:
  "read_params example_gcmd = Inr example_params
   \<and> toolhead_info old_firmware_printer ''minimum_cruise_ratio'' = None
   \<and> snd (create_vibrations_profile example_gcmd old_firmware_printer) = Inr ()
   \<and> list_all writes_no_cruise_ratio
        (fst (create_vibrations_profile example_gcmd old_firmware_printer))
   \<and> filter is_set_velocity_limit
        (fst (create_vibrations_profile example_gcmd old_firmware_printer))
       = [SetVelocityLimit 3000 None 5, SetVelocityLimit 1500 None 8]
   \<and> toolhead_info example_printer ''minimum_cruise_ratio'' = Some (1 / 2)
   \<and> snd (create_vibrations_profile example_gcmd example_printer) = Inr ()
   \<and> filter is_set_velocity_limit
        (fst (create_vibrations_profile example_gcmd example_printer))
       = [SetVelocityLimit 3000 (Some 0) 5, SetVelocityLimit 1500 (Some (1 / 2)) 8]"
proof -
  have 1: "snd (create_vibrations_profile example_gcmd example_printer) = Inr ()"
    by (simp add: profile_of_params [OF example_read] example_completes)
  have 2: "snd (create_vibrations_profile example_gcmd old_firmware_printer) = Inr ()"
    by (simp add: profile_of_params [OF example_read] old_firmware_completes)
  have 3: "toolhead_info old_firmware_printer ''minimum_cruise_ratio'' = None
     \<and> toolhead_info old_firmware_printer ''max_accel'' = Some 1500
     \<and> toolhead_info old_firmware_printer ''square_corner_velocity'' = Some 8"
    by (simp add: old_firmware_printer_def example_printer_def)
  have 4: "toolhead_info example_printer ''minimum_cruise_ratio'' = Some (1 / 2)
     \<and> toolhead_info example_printer ''max_accel'' = Some 1500
     \<and> toolhead_info example_printer ''square_corner_velocity'' = Some 8"
    by (simp add: example_printer_def)
  have 5: "accel example_params = 3000"
    by (simp add: example_params_def)
  from cruise_ratio_conditional [OF example_read, of old_firmware_printer]
    cruise_ratio_conditional [OF example_read, of example_printer] 1 2 3 4 5
  show ?thesis
    by (simp add: example_read)
qed

text \<open>
  C9, as stated, fails: on a printer whose status has a minimum cruise ratio of 1/2 and
  where no accelerometer is found for the first angle, the ratio is set to 0 and the
  command aborts; the script that sets the test limits is the only one that writes the
  velocity limits, so neither the ratio nor the acceleration nor the square corner
  velocity is restored.
\<close>

theorem cruise_ratio_left_at_zero_on_abort:
  "toolhead_info no_accelerometer_printer ''minimum_cruise_ratio'' = Some (1 / 2)
   \<and> snd (create_vibrations_profile example_gcmd no_accelerometer_printer)
       = Inl (AccelerometerNotFound None)
   \<and> filter is_set_velocity_limit
        (fst (create_vibrations_profile example_gcmd no_accelerometer_printer))
       = [SetVelocityLimit 3000 (Some 0) 5]"
proof -
  have "create_vibrations_profile example_gcmd no_accelerometer_printer =
     ([SetVelocityLimit 3000 (Some 0) 5, Move (10, 10, 20, 0) 12, Move (85, 85, 20, 0) 120,
       Dwell 0.5],
      Inl (AccelerometerNotFound None))"
    by (simp only: profile_of_params [OF example_read] no_accelerometer_aborts)
  moreover
  have "toolhead_info no_accelerometer_printer ''minimum_cruise_ratio'' = Some (1 / 2)"
    by (simp add: no_accelerometer_printer_def example_printer_def)
  ultimately show ?thesis
    by simp
qed

subsection \<open>C10: the moves keep the height and the extruder position\<close>

text \<open>
  C10. Every move of the command has the requested height as its third coordinate and
  the extruder position read at the start as its fourth.
\<close>

theorem moves_keep_Z_and_E:
  assumes "read_params g = Inr p"
  shows "list_all (keeps_Z_E (z_height p) (snd (snd (snd (position pr)))))
           (fst (create_vibrations_profile g pr))"
  using run_profile_keeps [of p pr "fst (run_profile p pr)" "snd (run_profile p pr)"]
  by (simp add: profile_of_params [OF assms])

theorem moves_keep_Z_and_E_witness:
  "read_params example_gcmd = Inr example_params
   \<and> z_height example_params = 20 \<and> snd (snd (snd (position example_printer))) = 0
   \<and> list_all (keeps_Z_E 20 0) (fst (create_vibrations_profile example_gcmd example_printer))
   \<and> length (fst (create_vibrations_profile example_gcmd example_printer)) = 37"
proof -
  have 1: "z_height example_params = 20 \<and> snd (snd (snd (position example_printer))) = 0"
    by (simp add: example_params_def example_printer_def)
  have 2: "length (fst (create_vibrations_profile example_gcmd example_printer)) = 37"
    by (simp add: profile_of_params [OF example_read] example_trace example_sample)
  from moves_keep_Z_and_E [OF example_read, of example_printer] 1 2 show ?thesis
    by (simp add: example_read)
qed

end